theory Spec2Isabelle
  imports Complex_Main "HOL-Library.Sublist"
begin

section \<open>JSON values and the JavaScript operations the handlers apply to them\<close>

text \<open>
  The edge functions and the React component work on values produced by \<open>JSON.parse\<close>
  (\<open>req.json()\<close>, \<open>response.json()\<close>, the body handed over by \<open>supabase.functions.invoke\<close>).
  A parsed value is one of the six JSON kinds; \<open>undefined\<close> (a property that is not there)
  is \<open>None\<close> of \<open>json option\<close>. Numbers are the rationals a JSON literal denotes; the
  rounding to a double is not modelled. Strings are sequences of code units, written with
  ASCII literals.
\<close>

datatype json =
    JNull
  | JBool bool
  | JNum rat
  | JStr string
  | JArr "json list"
  | JObj "(string \<times> json) list"

type_synonym jsval = "json option"

text \<open>
  What a handler can throw: a promise of its environment that rejects (\<open>req.json()\<close>,
  \<open>fetch\<close>, \<open>response.text()\<close>, \<open>response.json()\<close>), with the message of the rejection, a
  TypeError of the engine at the named expression, and the RangeError of \<open>new Response\<close>
  for a status outside 200 to 599.
\<close>

datatype js_exn =
    Rejected string
  | TypeErrorAt string
  | RangeErrorStatus nat

text \<open>
  What the JavaScript engine supplies and the repository does not: \<open>JSON.parse\<close> applied to
  a text that starts with an opening brace (it returns an object, given as its list of
  properties, or throws), the formatting of a number inside a template literal, the
  numeric reading of a string in a comparison, and the wording of the engine's own errors.
  Every theorem holds for any such runtime.
\<close>

record js_runtime =
  json_parse :: "string \<Rightarrow> (string \<times> json) list option"
  number_to_string :: "rat \<Rightarrow> string"
  string_to_number :: "string \<Rightarrow> rat option"
  engine_message :: "js_exn \<Rightarrow> string"

text \<open>Truthiness, as \<open>!x\<close>, \<open>x && y\<close> and \<open>x || y\<close> read it.\<close>

fun truthy :: "jsval \<Rightarrow> bool" where
  "truthy None = False"
| "truthy (Some JNull) = False"
| "truthy (Some (JBool b)) = b"
| "truthy (Some (JNum r)) = (r \<noteq> 0)"
| "truthy (Some (JStr s)) = (s \<noteq> [])"
| "truthy (Some (JArr xs)) = True"
| "truthy (Some (JObj kvs)) = True"

definition js_or :: "jsval \<Rightarrow> jsval \<Rightarrow> jsval" where
  "js_or a b = (if truthy a then a else b)"

text \<open>
  \<open>v.k\<close> on a value that is neither \<open>null\<close> nor \<open>undefined\<close>: the property of an object,
  \<open>undefined\<close> on anything else (none of the property names the code reads is a method of
  a string, a number or an array). The callers model the TypeError of \<open>null.k\<close>.
\<close>

fun get_prop :: "json \<Rightarrow> string \<Rightarrow> jsval" where
  "get_prop (JObj kvs) k = map_of kvs k"
| "get_prop v k = None"

text \<open>\<open>v[0]\<close> on a value that is neither \<open>null\<close> nor \<open>undefined\<close>.\<close>

fun idx0 :: "json \<Rightarrow> jsval" where
  "idx0 (JArr []) = None"
| "idx0 (JArr (x # xs)) = Some x"
| "idx0 (JStr []) = None"
| "idx0 (JStr (c # cs)) = Some (JStr [c])"
| "idx0 (JObj kvs) = map_of kvs ''0''"
| "idx0 v = None"

text \<open>Optional chaining \<open>a?.k\<close> and \<open>a?.[0]\<close>: \<open>undefined\<close> when \<open>a\<close> is \<open>null\<close> or \<open>undefined\<close>.\<close>

fun opt_prop :: "jsval \<Rightarrow> string \<Rightarrow> jsval" where
  "opt_prop None k = None"
| "opt_prop (Some JNull) k = None"
| "opt_prop (Some v) k = get_prop v k"

fun opt_idx0 :: "jsval \<Rightarrow> jsval" where
  "opt_idx0 None = None"
| "opt_idx0 (Some JNull) = None"
| "opt_idx0 (Some v) = idx0 v"

text \<open>
  An object literal as \<open>JSON.stringify\<close> writes it: a property whose value is
  \<open>undefined\<close> is left out.
\<close>

fun mk_obj :: "(string \<times> jsval) list \<Rightarrow> (string \<times> json) list" where
  "mk_obj [] = []"
| "mk_obj ((k, None) # kvs) = mk_obj kvs"
| "mk_obj ((k, Some v) # kvs) = (k, v) # mk_obj kvs"

text \<open>The assignment \<open>o.k = v\<close>: in place when \<open>o\<close> has the property, at the end otherwise.\<close>

fun set_prop :: "(string \<times> json) list \<Rightarrow> string \<Rightarrow> json \<Rightarrow> (string \<times> json) list" where
  "set_prop [] k v = [(k, v)]"
| "set_prop ((k', v') # kvs) k v =
     (if k' = k then (k, v) # kvs else (k', v') # set_prop kvs k v)"

text \<open>\<open>xs.join(sep)\<close> on an array of strings.\<close>

fun join :: "string \<Rightarrow> string list \<Rightarrow> string" where
  "join sep [] = []"
| "join sep [x] = x"
| "join sep (x # y # ys) = x @ sep @ join sep (y # ys)"

text \<open>What can throw, in sequence: the first exception ends the evaluation.\<close>

definition bind_exn :: "js_exn + 'a \<Rightarrow> ('a \<Rightarrow> js_exn + 'b) \<Rightarrow> js_exn + 'b" where
  "bind_exn m f = (case m of Inl e \<Rightarrow> Inl e | Inr v \<Rightarrow> f v)"

fun sequence_exn :: "(js_exn + 'a) list \<Rightarrow> js_exn + 'a list" where
  "sequence_exn [] = Inr []"
| "sequence_exn (m # ms) =
     (case m of
        Inl e \<Rightarrow> Inl e
      | Inr v \<Rightarrow> (case sequence_exn ms of Inl e \<Rightarrow> Inl e | Inr vs \<Rightarrow> Inr (v # vs)))"

text \<open>
  The string a template literal \<open>`${v}`\<close> inserts for a JSON value: a string is itself, an
  array is its elements joined by commas (\<open>null\<close> as the empty string), a plain object is
  \<open>[object Object]\<close>. An object with a property of its own called \<open>toString\<close> (a JSON value,
  so not a function) cannot be converted: the engine throws a TypeError, also when the
  object sits in an array.
\<close>

fun to_string :: "js_runtime \<Rightarrow> json \<Rightarrow> js_exn + string" where
  "to_string rt JNull = Inr ''null''"
| "to_string rt (JBool b) = Inr (if b then ''true'' else ''false'')"
| "to_string rt (JNum r) = Inr (number_to_string rt r)"
| "to_string rt (JStr s) = Inr s"
| "to_string rt (JArr xs) =
     (case sequence_exn (map (\<lambda>x. if x = JNull then Inr [] else to_string rt x) xs) of
        Inl e \<Rightarrow> Inl e
      | Inr ss \<Rightarrow> Inr (join '','' ss))"
| "to_string rt (JObj kvs) =
     (if map_of kvs ''toString'' = None then Inr ''[object Object]''
      else Inl (TypeErrorAt ''ToPrimitive''))"

text \<open>
  The number a relational comparison reads from a value; \<open>None\<close> is NaN, which makes every
  comparison false. The conversion of an object or an array goes through its string and
  throws where that does.
\<close>

fun to_number :: "js_runtime \<Rightarrow> jsval \<Rightarrow> js_exn + rat option" where
  "to_number rt None = Inr None"
| "to_number rt (Some JNull) = Inr (Some 0)"
| "to_number rt (Some (JBool b)) = Inr (Some (if b then 1 else 0))"
| "to_number rt (Some (JNum r)) = Inr (Some r)"
| "to_number rt (Some (JStr s)) = Inr (string_to_number rt s)"
| "to_number rt (Some (JArr xs)) =
     (case to_string rt (JArr xs) of Inl e \<Rightarrow> Inl e | Inr s \<Rightarrow> Inr (string_to_number rt s))"
| "to_number rt (Some (JObj kvs)) =
     (if map_of kvs ''toString'' = None then Inr None else Inl (TypeErrorAt ''ToPrimitive''))"

text \<open>\<open>v < bound\<close> for a number \<open>bound\<close>.\<close>

definition js_less :: "js_runtime \<Rightarrow> jsval \<Rightarrow> rat \<Rightarrow> js_exn + bool" where
  "js_less rt v bound =
     (case to_number rt v of
        Inl e \<Rightarrow> Inl e
      | Inr None \<Rightarrow> Inr False
      | Inr (Some r) \<Rightarrow> Inr (r < bound))"

subsection \<open>Strings\<close>

text \<open>The regular expression \<open>/\{[\s\S]*\}/\<close>: from the first opening brace to the last
  closing brace after it; no match when there is no such pair.\<close>

definition json_match :: "string \<Rightarrow> string option" where
  "json_match s =
     (let t = dropWhile (\<lambda>c. c \<noteq> CHR ''{'') s;
          m = rev (dropWhile (\<lambda>c. c \<noteq> CHR ''}'') (rev t))
      in if m = [] then None else Some m)"

text \<open>\<open>s.split(sep)\<close> for a string separator: the pieces between the non-overlapping
  occurrences of \<open>sep\<close>, read from the left; the empty separator splits into code units.\<close>

function split_from :: "string \<Rightarrow> string \<Rightarrow> string \<Rightarrow> string list" where
  "split_from sep acc [] = [rev acc]"
| "split_from sep acc (c # cs) =
     (if sep \<noteq> [] \<and> prefix sep (c # cs)
      then rev acc # split_from sep [] (drop (length sep) (c # cs))
      else split_from sep (c # acc) cs)"
  by pat_completeness auto
termination
  by (relation "measure (\<lambda>(sep, acc, s). length s)") auto

definition split :: "string \<Rightarrow> string \<Rightarrow> string list" where
  "split s sep = (if sep = [] then map (\<lambda>c. [c]) s else split_from sep [] s)"

text \<open>\<open>xs.slice(i, j)\<close> for \<open>0 \<le> i \<le> j\<close>.\<close>

definition slice :: "'a list \<Rightarrow> nat \<Rightarrow> nat \<Rightarrow> 'a list" where
  "slice xs i j = take (j - i) (drop i xs)"

text \<open>\<open>s.includes(t)\<close>: \<open>t\<close> occurs in \<open>s\<close> as a contiguous piece.\<close>

fun str_includes :: "string \<Rightarrow> string \<Rightarrow> bool" where
  "str_includes [] t = (t = [])"
| "str_includes (c # cs) t = (prefix t (c # cs) \<or> str_includes cs t)"

text \<open>\<open>s.toLowerCase()\<close>: the letters A to Z become a to z. A code unit outside ASCII
  never lower-cases to one of the letters the verifier looks for, so it is left as it is.\<close>

definition lower_char :: "char \<Rightarrow> char" where
  "lower_char c =
     (let n = (of_char c :: nat) in if 65 \<le> n \<and> n \<le> 90 then char_of (n + 32) else c)"

definition toLowerCase :: "string \<Rightarrow> string" where
  "toLowerCase s = map lower_char s"

section \<open>Requests, responses and the outbound call\<close>

text \<open>
  A body as the handler reads it: the read itself can fail, the text can fail to be JSON,
  or it is a JSON value. \<open>text()\<close> fails only in the first case, \<open>json()\<close> in the first two.
\<close>

datatype payload = Unreadable string | NotJson string | Json json

fun read_text :: "payload \<Rightarrow> js_exn + unit" where
  "read_text (Unreadable m) = Inl (Rejected m)"
| "read_text (NotJson m) = Inr ()"
| "read_text (Json v) = Inr ()"

fun read_json :: "payload \<Rightarrow> js_exn + json" where
  "read_json (Unreadable m) = Inl (Rejected m)"
| "read_json (NotJson m) = Inl (Rejected m)"
| "read_json (Json v) = Inr v"

record request =
  http_method :: string
  req_body :: payload

text \<open>A response of an edge function: its status and its JSON body (\<open>None\<close> is the empty
  body of the answer to OPTIONS). The CORS headers, the same on every response, are left out.\<close>

record response =
  resp_status :: nat
  resp_body :: jsval

text \<open>What \<open>fetch\<close> gives: a rejection (the transport failed), or a response with its status
  and body.\<close>

datatype fetch_result = FetchFails string | FetchResponse nat payload

datatype provider = GeminiAPI | PlantIdAPI | LovableGateway

definition ok :: "nat \<Rightarrow> bool" where
  "ok st = (200 \<le> st \<and> st \<le> 299)"

text \<open>\<open>new Response(JSON.stringify(b), {status: st})\<close> with a status copied from the
  provider's response: the constructor throws a RangeError outside 200 to 599 and a
  TypeError for a body on a null-body status.\<close>

definition new_response :: "nat \<Rightarrow> json \<Rightarrow> js_exn + response" where
  "new_response st b =
     (if st < 200 \<or> 599 < st then Inl (RangeErrorStatus st)
      else if st = 204 \<or> st = 205 \<or> st = 304 then Inl (TypeErrorAt ''new Response'')
      else Inr \<lparr>resp_status = st, resp_body = Some b\<rparr>)"

text \<open>\<open>const { imageBase64 } = await req.json()\<close>: destructuring \<open>null\<close> throws.\<close>

definition image_of :: "payload \<Rightarrow> js_exn + jsval" where
  "image_of p =
     (case read_json p of
        Inl e \<Rightarrow> Inl e
      | Inr b \<Rightarrow> if b = JNull then Inl (TypeErrorAt ''{ imageBase64 }'')
                else Inr (get_prop b ''imageBase64''))"

text \<open>\<open>error.message\<close> in a catch block.\<close>

definition message_of :: "js_runtime \<Rightarrow> js_exn \<Rightarrow> string" where
  "message_of rt e = (case e of Rejected m \<Rightarrow> m | _ \<Rightarrow> engine_message rt e)"

text \<open>\<open>Deno.env.get(name)\<close> is a string or \<open>undefined\<close>; the empty string is falsy too.\<close>

definition key_set :: "string option \<Rightarrow> bool" where
  "key_set k = (case k of None \<Rightarrow> False | Some s \<Rightarrow> s \<noteq> [])"

text \<open>The checks every handler makes before it calls its provider: the request is not the
  CORS preflight, its body has a truthy \<open>imageBase64\<close>, and the API key is configured.\<close>

definition reaches_provider :: "request \<Rightarrow> string option \<Rightarrow> bool" where
  "reaches_provider req api_key =
     (http_method req \<noteq> ''OPTIONS''
      \<and> (case image_of (req_body req) of Inl e \<Rightarrow> False | Inr imageBase64 \<Rightarrow> truthy imageBase64)
      \<and> key_set api_key)"

definition image_required :: response where
  "image_required =
     \<lparr>resp_status = 400, resp_body = Some (JObj [(''error'', JStr ''Image data is required'')])\<rparr>"

definition preflight :: response where
  "preflight = \<lparr>resp_status = 200, resp_body = None\<rparr>"

text \<open>The value a template literal inserts.\<close>

definition tmpl :: "js_runtime \<Rightarrow> jsval \<Rightarrow> js_exn + string" where
  "tmpl rt v = (case v of None \<Rightarrow> Inr ''undefined'' | Some x \<Rightarrow> to_string rt x)"

section \<open>identify-plant, the Gemini version\<close>

text \<open>\<open>aiResponse.candidates?.[0]?.content?.parts?.[0]?.text\<close>\<close>

definition gemini_content :: "json \<Rightarrow> js_exn + jsval" where
  "gemini_content aiResponse =
     (if aiResponse = JNull then Inl (TypeErrorAt ''aiResponse.candidates'')
      else Inr (opt_prop (opt_idx0 (opt_prop (opt_prop
                  (opt_idx0 (get_prop aiResponse ''candidates'')) ''content'') ''parts'')) ''text''))"

text \<open>The inner \<open>try\<close>: the match of the regular expression, parsed. \<open>None\<close> is the catch
  block: no match, a parse error, or a content that is not a string (it has no \<open>match\<close>).\<close>

definition gemini_plant_data :: "js_runtime \<Rightarrow> jsval \<Rightarrow> (string \<times> json) list option" where
  "gemini_plant_data rt content =
     (case content of
        Some (JStr c) \<Rightarrow>
          (case json_match c of None \<Rightarrow> None | Some m \<Rightarrow> json_parse rt m)
      | _ \<Rightarrow> None)"

text \<open>\<open>const additionalInfo = [...]\<close>: five template literals, evaluated in this order.\<close>

definition gemini_additional_info :: "js_runtime \<Rightarrow> json \<Rightarrow> js_exn + string list" where
  "gemini_additional_info rt plantData =
     bind_exn (tmpl rt (js_or (get_prop plantData ''wateringFrequencyDays'') (Some (JNum 7))))
       (\<lambda>watering.
     bind_exn (tmpl rt (js_or (get_prop plantData ''sunlight'')
                          (Some (JStr ''Moderate indirect light''))))
       (\<lambda>sunlight.
     bind_exn (tmpl rt (js_or (get_prop plantData ''soilType'')
                          (Some (JStr ''Well-draining potting mix''))))
       (\<lambda>soil.
     bind_exn (tmpl rt (js_or (get_prop plantData ''nativeRegion'')
                          (Some (JStr ''Various regions''))))
       (\<lambda>native.
     bind_exn (tmpl rt (js_or (get_prop plantData ''careLevel'') (Some (JStr ''Moderate''))))
       (\<lambda>care.
     Inr [ ''Watering: Every '' @ watering @ '' days'',
           ''Sunlight: '' @ sunlight,
           ''Soil: '' @ soil,
           ''Native to: '' @ native,
           ''Care Level: '' @ care ])))))"

text \<open>\<open>const result = {...}\<close>\<close>

definition gemini_fields :: "json \<Rightarrow> string list \<Rightarrow> (string \<times> jsval) list" where
  "gemini_fields plantData additionalInfo =
     [(''commonName'',
         js_or (get_prop plantData ''commonName'') (Some (JStr ''Unknown Plant''))),
      (''scientificName'',
         js_or (get_prop plantData ''scientificName'') (Some (JStr ''Species unknown''))),
      (''about'',
         js_or (get_prop plantData ''about'') (Some (JStr ''A beautiful plant species.''))),
      (''explanation'',
         js_or (get_prop plantData ''explanation'')
           (js_or (get_prop plantData ''about'')
              (Some (JStr ''No additional details available.'')))),
      (''additionalInfo'', Some (JArr (map JStr additionalInfo))),
      (''wateringFrequencyDays'',
         js_or (get_prop plantData ''wateringFrequencyDays'') (Some (JNum 7))),
      (''probability'',
         js_or (get_prop plantData ''confidence'') (Some (JNum (4 / 5))))]"

text \<open>The answer of the confidence gate when it rejects.\<close>

definition gemini_low_confidence :: "json \<Rightarrow> response" where
  "gemini_low_confidence plantData =
     \<lparr>resp_status = 200, resp_body = Some (JObj (mk_obj
        [(''error'', Some (JStr ''Low confidence identification'')),
         (''lowConfidence'', Some (JBool True)),
         (''probability'', js_or (get_prop plantData ''confidence'') (Some (JNum 0)))]))\<rparr>"

text \<open>The confidence gate and the response, on the parsed object. \<open>||\<close> does not evaluate the
  comparison when \<open>identified\<close> is falsy; the comparison and the template literals can throw,
  out to the catch block of the handler.\<close>

definition gemini_result :: "js_runtime \<Rightarrow> json \<Rightarrow> js_exn + response" where
  "gemini_result rt plantData =
     (if \<not> truthy (get_prop plantData ''identified'') then Inr (gemini_low_confidence plantData)
      else bind_exn (js_less rt (get_prop plantData ''confidence'') (1 / 2))
             (\<lambda>below.
                if below then Inr (gemini_low_confidence plantData)
                else bind_exn (gemini_additional_info rt plantData)
                       (\<lambda>additionalInfo.
                          Inr \<lparr>resp_status = 200,
                               resp_body = Some (JObj (mk_obj
                                 (gemini_fields plantData additionalInfo)))\<rparr>)))"

definition gemini_normalize :: "js_runtime \<Rightarrow> json \<Rightarrow> js_exn + response" where
  "gemini_normalize rt aiResponse =
     (case gemini_content aiResponse of
        Inl e \<Rightarrow> Inl e
      | Inr content \<Rightarrow>
          if \<not> truthy content
          then Inr \<lparr>resp_status = 200, resp_body = Some (JObj
                 [(''error'', JStr ''No identification result''), (''lowConfidence'', JBool True)])\<rparr>
          else (case gemini_plant_data rt content of
                  None \<Rightarrow> Inr \<lparr>resp_status = 200, resp_body = Some (JObj
                    [(''error'', JStr ''Failed to parse plant data''),
                     (''lowConfidence'', JBool True)])\<rparr>
                | Some plantData \<Rightarrow> gemini_result rt (JObj plantData)))"

definition api_error :: "nat \<Rightarrow> string \<Rightarrow> response" where
  "api_error st m =
     \<lparr>resp_status = st, resp_body = Some (JObj [(''error'', JStr m), (''apiError'', JBool True)])\<rparr>"

text \<open>Everything after \<open>fetch\<close> was called, as a function of what it gave.\<close>

definition gemini_after_fetch :: "js_runtime \<Rightarrow> fetch_result \<Rightarrow> js_exn + response" where
  "gemini_after_fetch rt fr =
     (case fr of
        FetchFails m \<Rightarrow> Inl (Rejected m)
      | FetchResponse st p \<Rightarrow>
          if \<not> ok st
          then (case read_text p of
                  Inl e \<Rightarrow> Inl e
                | Inr u \<Rightarrow>
                    if st = 429
                    then Inr (api_error 429 ''Rate limit exceeded. Please try again in a moment.'')
                    else if st = 403
                    then Inr (api_error 403 ''Invalid API key. Please check your Gemini API key.'')
                    else new_response st (JObj
                           [(''error'', JStr ''Failed to identify plant. Please try again.''),
                            (''apiError'', JBool True)]))
          else (case read_json p of
                  Inl e \<Rightarrow> Inl e
                | Inr aiResponse \<Rightarrow> gemini_normalize rt aiResponse))"

text \<open>The handler: the response, and the providers it called.\<close>

definition identify_plant_gemini ::
  "js_runtime \<Rightarrow> request \<Rightarrow> string option \<Rightarrow> fetch_result \<Rightarrow> response \<times> provider list" where
  "identify_plant_gemini rt req api_key fr =
     (if http_method req = ''OPTIONS'' then (preflight, [])
      else (case image_of (req_body req) of
              Inl e \<Rightarrow> (api_error 500 (message_of rt e), [])
            | Inr imageBase64 \<Rightarrow>
                if \<not> truthy imageBase64 then (image_required, [])
                else if \<not> key_set api_key then (api_error 500 ''API key not configured'', [])
                else (case gemini_after_fetch rt fr of
                        Inl e \<Rightarrow> (api_error 500 (message_of rt e), [GeminiAPI])
                      | Inr r \<Rightarrow> (r, [GeminiAPI]))))"

section \<open>identify-plant, the PlantID versions\<close>

definition plain_error :: "nat \<Rightarrow> string \<Rightarrow> response" where
  "plain_error st m = \<lparr>resp_status = st, resp_body = Some (JObj [(''error'', JStr m)])\<rparr>"

text \<open>The constants the handler reads from the top suggestion. The suggestion is truthy
  here, so reading its properties cannot throw.\<close>

definition plantid_details :: "jsval \<Rightarrow> jsval" where
  "plantid_details topSuggestion =
     js_or (opt_prop topSuggestion ''plant_details'') (Some (JObj []))"

definition plantid_common_names :: "jsval \<Rightarrow> jsval" where
  "plantid_common_names topSuggestion =
     js_or (opt_prop (plantid_details topSuggestion) ''common_names'') (Some (JArr []))"

definition plantid_scientific_name :: "jsval \<Rightarrow> jsval" where
  "plantid_scientific_name topSuggestion =
     js_or (opt_prop topSuggestion ''plant_name'') (Some (JStr ''Unknown''))"

definition plantid_raw_description :: "jsval \<Rightarrow> jsval" where
  "plantid_raw_description topSuggestion =
     js_or (opt_prop (opt_prop (plantid_details topSuggestion) ''description'') ''value'')
       (Some (JStr ''No description available''))"

definition plantid_watering :: "jsval \<Rightarrow> jsval" where
  "plantid_watering topSuggestion =
     js_or (opt_prop (opt_prop (plantid_details topSuggestion) ''watering'') ''max'')
       (Some (JNum 7))"

text \<open>\<open>const additionalInfo = [...]\<close>: one template literal and four fixed sentences.\<close>

definition plantid_additional_info :: "js_runtime \<Rightarrow> jsval \<Rightarrow> js_exn + string list" where
  "plantid_additional_info rt watering =
     bind_exn (tmpl rt watering)
       (\<lambda>w. Inr [ ''Watering: Every '' @ w @ '' days'',
                  ''Sunlight: Moderate to bright indirect light'',
                  ''Soil: Well-draining potting mix'',
                  ''Growth: Moderate growth rate'',
                  ''Native: Varies by species'' ])"

text \<open>The description cut into sentences at \<open>''. ''\<close>, and \<open>const result = {...}\<close>.\<close>

definition plantid_fields :: "jsval \<Rightarrow> string \<Rightarrow> string list \<Rightarrow> (string \<times> jsval) list" where
  "plantid_fields topSuggestion rawDescription additionalInfo =
     (let sentences = filter (\<lambda>s. length s > 0) (split rawDescription ''. '');
          about = join ''. '' (slice sentences 0 2) @ ''.'';
          explanation = join ''. '' (slice sentences 2 6)
                          @ (if length sentences > 2 then ''.'' else '''')
      in [(''commonName'',
             js_or (opt_idx0 (plantid_common_names topSuggestion))
               (plantid_scientific_name topSuggestion)),
          (''scientificName'', plantid_scientific_name topSuggestion),
          (''about'', Some (JStr about)),
          (''explanation'', Some (JStr (if explanation \<noteq> [] then explanation else about))),
          (''additionalInfo'', Some (JArr (map JStr additionalInfo))),
          (''wateringFrequencyDays'', plantid_watering topSuggestion),
          (''probability'', js_or (opt_prop topSuggestion ''probability'') (Some (JNum 0)))])"

text \<open>From the top suggestion to the response. A description that is not a string has no
  \<open>split\<close>; after it, the template literal can throw.\<close>

definition plantid_result :: "js_runtime \<Rightarrow> jsval \<Rightarrow> js_exn + response" where
  "plantid_result rt topSuggestion =
     (case plantid_raw_description topSuggestion of
        Some (JStr d) \<Rightarrow>
          bind_exn (plantid_additional_info rt (plantid_watering topSuggestion))
            (\<lambda>additionalInfo.
               Inr \<lparr>resp_status = 200,
                    resp_body = Some (JObj (mk_obj
                      (plantid_fields topSuggestion d additionalInfo)))\<rparr>)
      | _ \<Rightarrow> Inl (TypeErrorAt ''rawDescription.split''))"

text \<open>From the provider's parsed answer: the most probable suggestion, or 404 without one.\<close>

definition plantid_normalize :: "js_runtime \<Rightarrow> json \<Rightarrow> js_exn + response" where
  "plantid_normalize rt data =
     (if data = JNull then Inl (TypeErrorAt ''data.suggestions'')
      else
        let suggestions = js_or (get_prop data ''suggestions'') (Some (JArr []));
            topSuggestion = opt_idx0 suggestions
        in if \<not> truthy topSuggestion then Inr (plain_error 404 ''No plant identified'')
           else plantid_result rt topSuggestion)"

text \<open>The earlier version of the same handler: one \<open>description\<close>, no sentences and no list
  of facts.\<close>

definition plantid_normalize_v1 :: "json \<Rightarrow> js_exn + response" where
  "plantid_normalize_v1 data =
     (if data = JNull then Inl (TypeErrorAt ''data.suggestions'')
      else
        let suggestions = js_or (get_prop data ''suggestions'') (Some (JArr []));
            topSuggestion = opt_idx0 suggestions
        in if \<not> truthy topSuggestion then Inr (plain_error 404 ''No plant identified'')
           else
             let plantDetails = js_or (opt_prop topSuggestion ''plant_details'') (Some (JObj []));
                 commonNames = js_or (opt_prop plantDetails ''common_names'') (Some (JArr []));
                 scientificName = js_or (opt_prop topSuggestion ''plant_name'') (Some (JStr ''Unknown''));
                 description = js_or (opt_prop (opt_prop plantDetails ''description'') ''value'')
                                 (Some (JStr ''No description available''));
                 watering = js_or (opt_prop (opt_prop plantDetails ''watering'') ''max'') (Some (JNum 7))
             in Inr \<lparr>resp_status = 200, resp_body = Some (JObj (mk_obj
                  [(''commonName'', js_or (opt_idx0 commonNames) scientificName),
                   (''scientificName'', scientificName),
                   (''description'', description),
                   (''wateringFrequencyDays'', watering),
                   (''probability'', js_or (opt_prop topSuggestion ''probability'') (Some (JNum 0)))]))\<rparr>)"

definition plantid_after_fetch ::
  "(json \<Rightarrow> js_exn + response) \<Rightarrow> fetch_result \<Rightarrow> js_exn + response" where
  "plantid_after_fetch normalizer fr =
     (case fr of
        FetchFails m \<Rightarrow> Inl (Rejected m)
      | FetchResponse st p \<Rightarrow>
          if \<not> ok st
          then (case read_text p of
                  Inl e \<Rightarrow> Inl e
                | Inr u \<Rightarrow> new_response st (JObj [(''error'', JStr ''Failed to identify plant'')]))
          else (case read_json p of
                  Inl e \<Rightarrow> Inl e
                | Inr data \<Rightarrow> normalizer data))"

definition plantid_handler ::
  "js_runtime \<Rightarrow> (json \<Rightarrow> js_exn + response) \<Rightarrow> request \<Rightarrow> string option \<Rightarrow> fetch_result
     \<Rightarrow> response \<times> provider list" where
  "plantid_handler rt normalizer req api_key fr =
     (if http_method req = ''OPTIONS'' then (preflight, [])
      else (case image_of (req_body req) of
              Inl e \<Rightarrow> (plain_error 500 (message_of rt e), [])
            | Inr imageBase64 \<Rightarrow>
                if \<not> truthy imageBase64 then (image_required, [])
                else if \<not> key_set api_key then (plain_error 500 ''API key not configured'', [])
                else (case plantid_after_fetch normalizer fr of
                        Inl e \<Rightarrow> (plain_error 500 (message_of rt e), [PlantIdAPI])
                      | Inr r \<Rightarrow> (r, [PlantIdAPI]))))"

definition identify_plant_plantid ::
  "js_runtime \<Rightarrow> request \<Rightarrow> string option \<Rightarrow> fetch_result \<Rightarrow> response \<times> provider list" where
  "identify_plant_plantid rt = plantid_handler rt (plantid_normalize rt)"

definition identify_plant_plantid_v1 ::
  "js_runtime \<Rightarrow> request \<Rightarrow> string option \<Rightarrow> fetch_result \<Rightarrow> response \<times> provider list" where
  "identify_plant_plantid_v1 rt = plantid_handler rt plantid_normalize_v1"

section \<open>verify-plant\<close>

definition fail_open :: "string \<Rightarrow> response" where
  "fail_open flag =
     \<lparr>resp_status = 200, resp_body = Some (JObj
        [(''isPlant'', JBool True), (''confidence'', JNum (1 / 2)), (flag, JBool True)])\<rparr>"

definition keyword_hit :: "string \<Rightarrow> bool" where
  "keyword_hit content =
     (let lowerContent = toLowerCase content
      in str_includes lowerContent ''true'' \<or> str_includes lowerContent ''plant''
         \<or> str_includes lowerContent ''leaf'' \<or> str_includes lowerContent ''flower'')"

text \<open>From the classifier's parsed answer to the response. The result starts as
  \<open>{isPlant: true, confidence: 0.5}\<close>; a match that parses replaces it; a match that does not
  parse sets \<open>isPlant\<close> by the keywords; without a match it stays. A content that is not a
  string throws inside the catch block (\<open>toLowerCase\<close>), out to the outer one.\<close>

definition verify_content :: "json \<Rightarrow> jsval" where
  "verify_content data =
     js_or (opt_prop (opt_prop (opt_idx0 (get_prop data ''choices'')) ''message'') ''content'')
       (Some (JStr ''''))"

definition verify_parse :: "js_runtime \<Rightarrow> json \<Rightarrow> js_exn + response" where
  "verify_parse rt data =
     (if data = JNull then Inl (TypeErrorAt ''data.choices'')
      else
        let content = verify_content data;
            initial = [(''isPlant'', JBool True), (''confidence'', JNum (1 / 2))]
        in (case content of
              Some (JStr c) \<Rightarrow>
                (case json_match c of
                   None \<Rightarrow> Inr \<lparr>resp_status = 200, resp_body = Some (JObj initial)\<rparr>
                 | Some m \<Rightarrow>
                     (case json_parse rt m of
                        Some parsed \<Rightarrow> Inr \<lparr>resp_status = 200, resp_body = Some (JObj parsed)\<rparr>
                      | None \<Rightarrow> Inr \<lparr>resp_status = 200, resp_body = Some (JObj
                          (set_prop initial ''isPlant'' (JBool (keyword_hit c))))\<rparr>))
            | _ \<Rightarrow> Inl (TypeErrorAt ''content.toLowerCase'')))"

definition verify_after_fetch :: "js_runtime \<Rightarrow> fetch_result \<Rightarrow> js_exn + response" where
  "verify_after_fetch rt fr =
     (case fr of
        FetchFails m \<Rightarrow> Inl (Rejected m)
      | FetchResponse st p \<Rightarrow>
          if \<not> ok st
          then (case read_text p of
                  Inl e \<Rightarrow> Inl e
                | Inr u \<Rightarrow> Inr (fail_open ''fallback''))
          else (case read_json p of
                  Inl e \<Rightarrow> Inl e
                | Inr data \<Rightarrow> verify_parse rt data))"

text \<open>The handler. Its catch block answers 200 with \<open>{isPlant: true, confidence: 0.5,
  error: true}\<close> whatever was thrown.\<close>

definition verify_plant ::
  "js_runtime \<Rightarrow> request \<Rightarrow> string option \<Rightarrow> fetch_result \<Rightarrow> response \<times> provider list" where
  "verify_plant rt req api_key fr =
     (if http_method req = ''OPTIONS'' then (preflight, [])
      else (case image_of (req_body req) of
              Inl e \<Rightarrow> (fail_open ''error'', [])
            | Inr imageBase64 \<Rightarrow>
                if \<not> truthy imageBase64 then (image_required, [])
                else if \<not> key_set api_key then (plain_error 500 ''API key not configured'', [])
                else (case verify_after_fetch rt fr of
                        Inl e \<Rightarrow> (fail_open ''error'', [LovableGateway])
                      | Inr r \<Rightarrow> (r, [LovableGateway]))))"

section \<open>The component that runs an identification\<close>

text \<open>
  \<open>supabase.functions.invoke\<close> resolves to \<open>{data, error}\<close>: the parsed body of a 2xx answer,
  or an error for any other status and for a failed transport.
\<close>

datatype invoke_result = InvokeError | InvokeData jsval

definition invoke :: "response \<Rightarrow> invoke_result" where
  "invoke r = (if ok (resp_status r) then InvokeData (resp_body r) else InvokeError)"

text \<open>
  The three messages \<open>processImage\<close> hands to \<open>onError\<close>: that the picture does not look
  like a plant, that no plant could be recognised confidently, and that the identification
  failed; or the result handed to \<open>onIdentified\<close>.
\<close>

datatype notice = NotAPlantNotice | UnrecognisedNotice | FailedNotice

datatype ui_event = OnError notice | OnIdentified json

text \<open>The properties \<open>{...data}\<close> copies; only an object can have reached the spread.\<close>

fun spread :: "jsval \<Rightarrow> (string \<times> json) list" where
  "spread (Some (JObj kvs)) = kvs"
| "spread v = []"

text \<open>Step 2 of \<open>processImage\<close>, after \<open>identify-plant\<close> was invoked. \<open>throw error\<close> lands in
  the catch block of the function.\<close>

definition identify_step :: "invoke_result \<Rightarrow> string \<Rightarrow> ui_event" where
  "identify_step identified previewUrl =
     (case identified of
        InvokeError \<Rightarrow> OnError FailedNotice
      | InvokeData d \<Rightarrow>
          if truthy d \<and> truthy (opt_prop d ''lowConfidence'') then OnError UnrecognisedNotice
          else if truthy d \<and> truthy (opt_prop d ''commonName'')
          then OnIdentified (JObj (set_prop (spread d) ''imageUrl'' (JStr previewUrl)))
          else OnError UnrecognisedNotice)"

text \<open>
  \<open>processImage\<close>, from the encoded image on: what the two invocations resolve to goes
  in (the second is read only when it is made), the callback and the names of the functions
  invoked come out.
\<close>

definition processImage :: "invoke_result \<Rightarrow> invoke_result \<Rightarrow> string \<Rightarrow> ui_event \<times> string list" where
  "processImage verified identified previewUrl =
     (case verified of
        InvokeError \<Rightarrow>
          (identify_step identified previewUrl, [''verify-plant'', ''identify-plant''])
      | InvokeData verifyData \<Rightarrow>
          if truthy verifyData \<and> \<not> truthy (opt_prop verifyData ''isPlant'')
          then (OnError NotAPlantNotice, [''verify-plant''])
          else (identify_step identified previewUrl, [''verify-plant'', ''identify-plant'']))"

text \<open>The properties of \<open>interface IdentificationResult\<close>.\<close>

definition result_keys :: "string list" where
  "result_keys =
     [''commonName'', ''scientificName'', ''about'', ''explanation'', ''additionalInfo'',
      ''wateringFrequencyDays'', ''probability'']"

text \<open>The outcome of a run, in the words of the specification.\<close>

datatype outcome = Success json | NotAPlant | LowConfidence | TransientError

fun outcome_of :: "ui_event \<Rightarrow> outcome" where
  "outcome_of (OnIdentified r) = Success r"
| "outcome_of (OnError NotAPlantNotice) = NotAPlant"
| "outcome_of (OnError UnrecognisedNotice) = LowConfidence"
| "outcome_of (OnError FailedNotice) = TransientError"

definition identify_calls :: "string list \<Rightarrow> nat" where
  "identify_calls invoked = length (filter (\<lambda>f. f = ''identify-plant'') invoked)"

section \<open>Days until the next watering\<close>

text \<open>
  Time values are milliseconds since the epoch, as \<open>Date\<close> holds them. The host supplies
  the time zone (the offset of local time at a UTC time value, and at a local one) and the
  calendar (the day number of the first day of the month a day number falls in).
  \<open>getDate\<close> and \<open>setDate\<close> follow ECMAScript: the day of the month of the local time, and
  the time value of that month's day \<open>d\<close> at the same local time of day.
\<close>

record host_clock =
  utc_offset :: "int \<Rightarrow> int"
  local_offset :: "int \<Rightarrow> int"
  month_start :: "int \<Rightarrow> int"

definition msPerDay :: int where
  "msPerDay = 1000 * 60 * 60 * 24"

definition Day :: "int \<Rightarrow> int" where
  "Day t = t div msPerDay"

definition TimeWithinDay :: "int \<Rightarrow> int" where
  "TimeWithinDay t = t mod msPerDay"

definition MakeDate :: "int \<Rightarrow> int \<Rightarrow> int" where
  "MakeDate day time = day * msPerDay + time"

definition LocalTime :: "host_clock \<Rightarrow> int \<Rightarrow> int" where
  "LocalTime h t = t + utc_offset h t"

definition UTC :: "host_clock \<Rightarrow> int \<Rightarrow> int" where
  "UTC h t = t - local_offset h t"

text \<open>A \<open>Date\<close> holds a time value of at most 8.64e15 in absolute value, or NaN (\<open>None\<close>).\<close>

definition TimeClip :: "int \<Rightarrow> int option" where
  "TimeClip t = (if \<bar>t\<bar> \<le> 8640000000000000 then Some t else None)"

definition getDate :: "host_clock \<Rightarrow> int option \<Rightarrow> int option" where
  "getDate h date =
     (case date of
        None \<Rightarrow> None
      | Some t \<Rightarrow> Some (Day (LocalTime h t) - month_start h (Day (LocalTime h t)) + 1))"

definition setDate :: "host_clock \<Rightarrow> int option \<Rightarrow> int option \<Rightarrow> int option" where
  "setDate h date d =
     (case date of
        None \<Rightarrow> None
      | Some t \<Rightarrow>
          (case d of
             None \<Rightarrow> None
           | Some dt \<Rightarrow>
               TimeClip (UTC h (MakeDate (month_start h (Day (LocalTime h t)) + dt - 1)
                                  (TimeWithinDay (LocalTime h t))))))"

text \<open>\<open>getDaysUntilWatering\<close> of the dashboard. \<open>lastWatered\<close> is the time value the date
  string denotes (\<open>None\<close> when it denotes none), \<open>today\<close> the time value \<open>new Date()\<close> reads;
  the result \<open>None\<close> is NaN. The subtraction and the division are exact, as they are in
  double precision for a present-day \<open>today\<close>.\<close>

definition dashboard_getDaysUntilWatering ::
  "host_clock \<Rightarrow> int \<Rightarrow> int option \<Rightarrow> int \<Rightarrow> int option" where
  "dashboard_getDaysUntilWatering h today lastWatered frequency =
     (let lastWateredDate = Option.bind lastWatered TimeClip;
          nextWateringDate =
            setDate h lastWateredDate
              (map_option (\<lambda>d. d + frequency) (getDate h lastWateredDate))
      in case nextWateringDate of
           None \<Rightarrow> None
         | Some next \<Rightarrow>
             (let diffTime = next - today;
                  diffDays = \<lceil>(of_int diffTime :: rat) / (1000 * 60 * 60 * 24)\<rceil>
              in Some diffDays))"

text \<open>\<open>getDaysUntilWatering\<close> of the collection page.\<close>

definition myplants_getDaysUntilWatering ::
  "host_clock \<Rightarrow> int \<Rightarrow> int option \<Rightarrow> int \<Rightarrow> int option" where
  "myplants_getDaysUntilWatering h today lastWatered frequency =
     (let lastWateredDate = Option.bind lastWatered TimeClip;
          nextWateringDate =
            setDate h lastWateredDate
              (map_option (\<lambda>d. d + frequency) (getDate h lastWateredDate))
      in case nextWateringDate of
           None \<Rightarrow> None
         | Some next \<Rightarrow>
             (let diffTime = next - today;
                  diffDays = \<lceil>(of_int diffTime :: rat) / (1000 * 60 * 60 * 24)\<rceil>
              in Some diffDays))"

section \<open>A runtime and a host for concrete runs\<close>

function decimal :: "nat \<Rightarrow> string" where
  "decimal n =
     (if n < 10 then [char_of (48 + n)] else decimal (n div 10) @ [char_of (48 + n mod 10)])"
  by pat_completeness auto
termination
  by (relation "measure (\<lambda>n. n)") auto

text \<open>A runtime that parses three texts, prints the whole numbers from 0 on in decimal,
  and reads no string as a number.\<close>

definition parse_table :: "(string \<times> (string \<times> json) list) list" where
  \<open>parse_table =
     [(''{}'', []),
      (''{"identified": true, "confidence": 0.3, "commonName": "Fern"}'',
         [(''identified'', JBool True), (''confidence'', JNum (3 / 10)),
          (''commonName'', JStr ''Fern'')]),
      (''{"identified": true, "confidence": 0.9, "commonName": "Fern"}'',
         [(''identified'', JBool True), (''confidence'', JNum (9 / 10)),
          (''commonName'', JStr ''Fern'')])]\<close>

definition small_runtime :: js_runtime where
  "small_runtime =
     \<lparr>json_parse = map_of parse_table,
      number_to_string = (\<lambda>r. if 0 \<le> r \<and> of_int \<lfloor>r\<rfloor> = r then decimal (nat \<lfloor>r\<rfloor>) else ''NaN''),
      string_to_number = (\<lambda>s. None),
      engine_message = (\<lambda>e. ''TypeError'')\<rparr>"

text \<open>The day of the month (1 to 31) of a day number in the Gregorian calendar, day 0 being
  1 January 1970, and a host on UTC with that calendar.\<close>

definition day_of_month :: "int \<Rightarrow> int" where
  "day_of_month d =
     (let doe = (d + 719468) mod 146097;
          yoe = (doe - doe div 1460 + doe div 36524 - doe div 146096) div 365;
          doy = doe - (365 * yoe + yoe div 4 - yoe div 100);
          mp = (5 * doy + 2) div 153
      in doy - (153 * mp + 2) div 5 + 1)"

definition utc_host :: host_clock where
  "utc_host =
     \<lparr>utc_offset = (\<lambda>t. 0), local_offset = (\<lambda>t. 0),
      month_start = (\<lambda>d. d - (day_of_month d - 1))\<rparr>"

text \<open>A host on United States Eastern time around the end of daylight saving time in 2025:
  four hours behind UTC before 2 November 2025, 06:00 UTC (02:00 local), five hours from
  then on.\<close>

definition eastern_host :: host_clock where
  "eastern_host =
     \<lparr>utc_offset = (\<lambda>t. if t < 1762063200000 then - 14400000 else - 18000000),
      local_offset = (\<lambda>t. if t < 1762063200000 - 14400000 then - 14400000 else - 18000000),
      month_start = (\<lambda>d. d - (day_of_month d - 1))\<rparr>"

section \<open>Inputs of the scenarios\<close>

text \<open>A request that carries an image.\<close>

definition photo_request :: request where
  "photo_request =
     \<lparr>http_method = ''POST'', req_body = Json (JObj [(''imageBase64'', JStr ''aGVsbG8='')])\<rparr>"

text \<open>A request whose body has no image, one whose body is \<open>null\<close>, and a preflight that
  carries a body.\<close>

definition empty_request :: request where
  "empty_request = \<lparr>http_method = ''POST'', req_body = Json (JObj [])\<rparr>"

definition null_request :: request where
  "null_request = \<lparr>http_method = ''POST'', req_body = Json JNull\<rparr>"

definition options_request :: request where
  "options_request = \<lparr>http_method = ''OPTIONS'', req_body = Json (JObj [])\<rparr>"

text \<open>An answer of the chat completion gateway, and one of Gemini, with the given text.\<close>

definition chat_reply :: "string \<Rightarrow> json" where
  "chat_reply c = JObj [(''choices'', JArr [JObj [(''message'', JObj [(''content'', JStr c)])]])]"

definition gemini_reply :: "string \<Rightarrow> json" where
  "gemini_reply c =
     JObj [(''candidates'', JArr [JObj [(''content'', JObj [(''parts'', JArr [JObj [(''text'', JStr c)]])])]])]"

text \<open>Two completions of the language model, prose around a JSON object: one with a
  confidence of 0.3, one with 0.9.\<close>

definition unsure_text :: string where
  \<open>unsure_text =
     ''Here you go: {"identified": true, "confidence": 0.3, "commonName": "Fern"} Enjoy!''\<close>

definition sure_text :: string where
  \<open>sure_text =
     ''Here you go: {"identified": true, "confidence": 0.9, "commonName": "Fern"} Enjoy!''\<close>

text \<open>The raw provider response of the specification's scenario.\<close>

definition rosa_response :: json where
  "rosa_response =
     JObj [(''suggestions'', JArr [JObj
       [(''plant_name'', JStr ''Rosa''),
        (''probability'', JNum (9 / 10)),
        (''plant_details'', JObj
           [(''common_names'', JArr [JStr ''Rose'']),
            (''description'', JObj [(''value'',
               JStr ''A flowering shrub. It has thorns. It blooms in summer. It needs full sun.'')]),
            (''watering'', JObj [(''max'', JNum 5)])])]])]"

text \<open>A suggestion the provider itself gives a probability of 0.3, a parsed answer of
  the model with an explanation and no summary, and a suggestion that is an empty object.\<close>

definition faint_response :: json where
  "faint_response =
     JObj [(''suggestions'', JArr [JObj [(''plant_name'', JStr ''Rosa''), (''probability'', JNum (3 / 10))]])]"

definition terse_answer :: json where
  "terse_answer = JObj [(''identified'', JBool True), (''explanation'', JStr ''Ferns are ancient.'')]"

definition bare_response :: json where
  "bare_response = JObj [(''suggestions'', JArr [JObj []])]"

text \<open>A verdict of the verifier that lets the run go on.\<close>

definition plant_verdict :: invoke_result where
  "plant_verdict = InvokeData (Some (JObj [(''isPlant'', JBool True), (''confidence'', JNum (9 / 10))]))"

section \<open>Facts about the operations\<close>

lemma map_of_set_prop_other: "k \<noteq> k' \<Longrightarrow> map_of (set_prop kvs k' v) k = map_of kvs k"
  by (induction kvs) auto

lemma mk_obj_keys: "fst ` set (mk_obj kvs) \<subseteq> fst ` set kvs"
  by (induction kvs rule: mk_obj.induct) auto

lemma map_of_mk_obj:
  "distinct (map fst kvs) \<Longrightarrow>
     map_of (mk_obj kvs) k = (case map_of kvs k of None \<Rightarrow> None | Some v \<Rightarrow> v)"
proof (induction kvs rule: mk_obj.induct)
  case 1
  then show ?case by simp
next
  case (2 k' kvs)
  have "k' \<notin> fst ` set (mk_obj kvs)"
    using 2(2) mk_obj_keys[of kvs] by auto
  then have "map_of (mk_obj kvs) k' = None"
    by (simp add: map_of_eq_None_iff)
  with 2 show ?case by auto
next
  case (3 k' v kvs)
  then show ?case by auto
qed

text \<open>The match of the regular expression: where there is one, it runs from the first
  opening brace to the last closing brace; there is none exactly when no opening brace has
  a closing brace after it.\<close>

lemma json_match_None_iff:
  "json_match s = None \<longleftrightarrow> \<not> (\<exists>a b c. s = a @ CHR ''{'' # b @ CHR ''}'' # c)"
proof
  assume n: "json_match s = None"
  show "\<not> (\<exists>a b c. s = a @ CHR ''{'' # b @ CHR ''}'' # c)"
  proof
    assume "\<exists>a b c. s = a @ CHR ''{'' # b @ CHR ''}'' # c"
    then obtain a b c where s: "s = a @ CHR ''{'' # b @ CHR ''}'' # c" by blast
    let ?t = "dropWhile (\<lambda>c. c \<noteq> CHR ''{'') s"
    have "CHR ''{'' \<in> set s" using s by simp
    then obtain a' where a': "s = a' @ ?t"
      using takeWhile_dropWhile_id[of "\<lambda>c. c \<noteq> CHR ''{''" s] by metis
    have "CHR ''}'' \<in> set ?t"
    proof -
      have "\<exists>u. ?t = u @ CHR ''}'' # c"
      proof -
        have "dropWhile (\<lambda>c. c \<noteq> CHR ''{'') (a @ CHR ''{'' # b @ CHR ''}'' # c)
                = dropWhile (\<lambda>c. c \<noteq> CHR ''{'') a @ CHR ''{'' # b @ CHR ''}'' # c
              \<or> dropWhile (\<lambda>c. c \<noteq> CHR ''{'') (a @ CHR ''{'' # b @ CHR ''}'' # c)
                = CHR ''{'' # b @ CHR ''}'' # c"
          by (induction a) auto
        then show ?thesis using s by auto
      qed
      then show ?thesis by auto
    qed
    with n show False
      by (auto simp: json_match_def Let_def split: if_splits)
  qed
next
  assume h: "\<not> (\<exists>a b c. s = a @ CHR ''{'' # b @ CHR ''}'' # c)"
  show "json_match s = None"
  proof (rule ccontr)
    assume "json_match s \<noteq> None"
    let ?t = "dropWhile (\<lambda>c. c \<noteq> CHR ''{'') s"
    from \<open>json_match s \<noteq> None\<close> have ne: "dropWhile (\<lambda>c. c \<noteq> CHR ''}'') (rev ?t) \<noteq> []"
      by (simp add: json_match_def Let_def split: if_splits)
    have t: "?t \<noteq> []"
    proof
      assume "?t = []"
      then have "dropWhile (\<lambda>c. c \<noteq> CHR ''}'') (rev ?t) = []"
        by (simp only: rev.simps dropWhile.simps)
      with ne show False by (rule notE)
    qed
    then obtain t' where t': "?t = CHR ''{'' # t'"
      using hd_dropWhile[of "\<lambda>c. c \<noteq> CHR ''{''" s] by (cases ?t) auto
    from ne have "CHR ''}'' \<in> set ?t"
      by (auto simp: dropWhile_eq_Nil_conv)
    with t' have "CHR ''}'' \<in> set t'" by auto
    then obtain b c where "t' = b @ CHR ''}'' # c" by (auto simp: in_set_conv_decomp)
    with t' have "s = takeWhile (\<lambda>c. c \<noteq> CHR ''{'') s @ CHR ''{'' # b @ CHR ''}'' # c"
      using takeWhile_dropWhile_id[of "\<lambda>c. c \<noteq> CHR ''{''" s] by simp
    with h show False by blast
  qed
qed

lemma json_match_Some:
  assumes "json_match s = Some m"
  shows "\<exists>pre post. s = pre @ m @ post \<and> CHR ''{'' \<notin> set pre \<and> CHR ''}'' \<notin> set post
           \<and> hd m = CHR ''{'' \<and> last m = CHR ''}''"
proof -
  let ?t = "dropWhile (\<lambda>c. c \<noteq> CHR ''{'') s"
  let ?d = "dropWhile (\<lambda>c. c \<noteq> CHR ''}'') (rev ?t)"
  let ?pre = "takeWhile (\<lambda>c. c \<noteq> CHR ''{'') s"
  let ?post = "rev (takeWhile (\<lambda>c. c \<noteq> CHR ''}'') (rev ?t))"
  from assms have m: "m = rev ?d" and ne: "?d \<noteq> []"
    by (simp_all add: json_match_def Let_def split: if_splits)
  have "rev ?t = takeWhile (\<lambda>c. c \<noteq> CHR ''}'') (rev ?t) @ ?d"
    by (simp only: takeWhile_dropWhile_id)
  then have "rev (rev ?t) = rev (takeWhile (\<lambda>c. c \<noteq> CHR ''}'') (rev ?t) @ ?d)"
    by (rule arg_cong)
  then have t: "?t = m @ ?post"
    by (simp only: rev_rev_ident rev_append m)
  have s: "s = ?pre @ m @ ?post"
    using takeWhile_dropWhile_id[of "\<lambda>c. c \<noteq> CHR ''{''" s] t by metis
  have pre: "CHR ''{'' \<notin> set ?pre"
    using set_takeWhileD[of "CHR ''{''" "\<lambda>c. c \<noteq> CHR ''{''" s] by blast
  have post: "CHR ''}'' \<notin> set ?post"
    using set_takeWhileD[of "CHR ''}''" "\<lambda>c. c \<noteq> CHR ''}''" "rev ?t"] by auto
  from ne m have mne: "m \<noteq> []" by (simp only: rev_is_Nil_conv not_False_eq_True)
  with t have tne: "?t \<noteq> []" by (metis append_is_Nil_conv)
  then have "hd ?t = CHR ''{''"
    using hd_dropWhile[of "\<lambda>c. c \<noteq> CHR ''{''" s] by blast
  with t mne have h: "hd m = CHR ''{''"
    by (metis hd_append2)
  have "last m = hd ?d"
    using ne by (simp only: m last_rev)
  also have "\<dots> = CHR ''}''"
    using hd_dropWhile[OF ne] by blast
  finally have l: "last m = CHR ''}''" .
  from s pre post h l show ?thesis by blast
qed

text \<open>Cutting a string at a separator and joining the pieces with it gives the string back.\<close>

lemma split_from_nonempty: "split_from sep acc s \<noteq> []"
  by (induction sep acc s rule: split_from.induct) auto

lemma join_Cons: "ys \<noteq> [] \<Longrightarrow> join sep (x # ys) = x @ sep @ join sep ys"
  by (cases ys) simp_all

lemma join_split_from: "join sep (split_from sep acc s) = rev acc @ s"
proof (induction sep acc s rule: split_from.induct)
  case (1 sep acc)
  then show ?case by simp
next
  case (2 sep acc c cs)
  show ?case
  proof (cases "sep \<noteq> [] \<and> prefix sep (c # cs)")
    case True
    then obtain rest where rest: "c # cs = sep @ rest"
      by (auto simp: prefix_def)
    then have d: "drop (length sep) (c # cs) = rest"
      by (metis append_eq_conv_conj)
    have e: "split_from sep acc (c # cs)
               = rev acc # split_from sep [] (drop (length sep) (c # cs))"
      using True by simp
    have "join sep (split_from sep acc (c # cs))
            = rev acc @ sep @ join sep (split_from sep [] (drop (length sep) (c # cs)))"
      by (simp only: e join_Cons[OF split_from_nonempty])
    also have "\<dots> = rev acc @ sep @ rest"
      using 2(1) True by (simp add: d)
    also have "\<dots> = rev acc @ c # cs"
      by (simp only: rest)
    finally show ?thesis .
  next
    case False
    with 2(2) show ?thesis by auto
  qed
qed

lemma join_split: "sep \<noteq> [] \<Longrightarrow> join sep (split s sep) = s"
  by (simp add: split_def join_split_from)

lemma photo_request_reaches: "reaches_provider photo_request (Some ''key'')"
  by (simp add: reaches_provider_def photo_request_def image_of_def key_set_def)


lemma gemini_reached:
  "reaches_provider req api_key \<Longrightarrow>
     identify_plant_gemini rt req api_key fr =
       (case gemini_after_fetch rt fr of
          Inl e \<Rightarrow> (api_error 500 (message_of rt e), [GeminiAPI])
        | Inr r \<Rightarrow> (r, [GeminiAPI]))"
  by (auto simp: reaches_provider_def identify_plant_gemini_def split: sum.splits)

section \<open>The verifier fails open\<close>




section \<open>The short circuit on a picture that is not a plant\<close>

text \<open>
  Claim C3. For every answer of the verifier with \<open>isPlant = false\<close> (whatever its
  \<open>fallback\<close> property, so in particular with \<open>fallback = false\<close>), \<open>processImage\<close> ends with the
  not-a-plant outcome, and \<open>identify-plant\<close> is not among the functions it invoked: the
  count of identification calls of the run is zero.
\<close>

theorem not_a_plant_short_circuit:
  assumes "get_prop verifyData ''isPlant'' = Some (JBool False)"
  shows "outcome_of (fst (processImage (InvokeData (Some verifyData)) identified previewUrl))
           = NotAPlant
         \<and> identify_calls (snd (processImage (InvokeData (Some verifyData)) identified previewUrl))
           = 0"
proof -
  from assms obtain kvs where "verifyData = JObj kvs"
    by (cases verifyData) simp_all
  with assms show ?thesis
    by (simp add: processImage_def identify_calls_def)
qed

theorem not_a_plant_short_circuit_witness:
  "get_prop (JObj [(''isPlant'', JBool False), (''confidence'', JNum (19 / 20))]) ''isPlant''
     = Some (JBool False)
   \<and> outcome_of (fst (processImage
        (InvokeData (Some (JObj [(''isPlant'', JBool False), (''confidence'', JNum (19 / 20))])))
        (invoke (fst (identify_plant_plantid small_runtime photo_request (Some ''key'')
                        (FetchResponse 200 (Json rosa_response)))))
        ''data:image/jpeg;base64,aGVsbG8='')) = NotAPlant
   \<and> identify_calls (snd (processImage
        (InvokeData (Some (JObj [(''isPlant'', JBool False), (''confidence'', JNum (19 / 20))])))
        (invoke (fst (identify_plant_plantid small_runtime photo_request (Some ''key'')
                        (FetchResponse 200 (Json rosa_response)))))
        ''data:image/jpeg;base64,aGVsbG8='')) = 0"
  using not_a_plant_short_circuit[of
      "JObj [(''isPlant'', JBool False), (''confidence'', JNum (19 / 20))]"
      "invoke (fst (identify_plant_plantid small_runtime photo_request (Some ''key'')
                      (FetchResponse 200 (Json rosa_response))))"
      "''data:image/jpeg;base64,aGVsbG8=''"]
  by simp

section \<open>A request without an image\<close>

theorem null_body_and_preflight:
  "verify_plant small_runtime null_request (Some ''key'') (FetchFails ''timeout'')
     = (\<lparr>resp_status = 200, resp_body = Some (JObj
          [(''isPlant'', JBool True), (''confidence'', JNum (1 / 2)), (''error'', JBool True)])\<rparr>, [])
   \<and> identify_plant_gemini small_runtime null_request (Some ''key'') (FetchFails ''timeout'')
     = (\<lparr>resp_status = 500, resp_body = Some (JObj
          [(''error'', JStr ''TypeError''), (''apiError'', JBool True)])\<rparr>, [])
   \<and> identify_plant_plantid small_runtime null_request (Some ''key'') (FetchFails ''timeout'')
     = (\<lparr>resp_status = 500, resp_body = Some (JObj [(''error'', JStr ''TypeError'')])\<rparr>, [])
   \<and> verify_plant small_runtime options_request (Some ''key'') (FetchFails ''timeout'')
     = (\<lparr>resp_status = 200, resp_body = None\<rparr>, [])
   \<and> identify_plant_gemini small_runtime options_request (Some ''key'') (FetchFails ''timeout'')
     = (\<lparr>resp_status = 200, resp_body = None\<rparr>, [])"
  by (simp add: verify_plant_def identify_plant_gemini_def identify_plant_plantid_def
      plantid_handler_def image_of_def null_request_def options_request_def fail_open_def
      api_error_def plain_error_def preflight_def message_of_def small_runtime_def)

text \<open>
  Claim C9, as the code has it. For every request to \<open>verify-plant\<close> or to \<open>identify-plant\<close>
  (the Gemini version and both PlantID versions) other than the CORS preflight, whose JSON
  body is not \<open>null\<close> and has no \<open>imageBase64\<close>, or an empty or otherwise falsy one, the
  handler answers with status 400 and the body \<open>{error: "Image data is required"}\<close>, and
  calls no provider, whatever the API key and whatever the provider would have answered.
  (The preflight is answered before the body is read.)
\<close>

theorem missing_image_is_rejected:
  assumes "http_method req \<noteq> ''OPTIONS''"
    and "req_body req = Json b" and "b \<noteq> JNull"
    and "\<not> truthy (get_prop b ''imageBase64'')"
  shows "verify_plant rt req api_key fr
           = (\<lparr>resp_status = 400,
               resp_body = Some (JObj [(''error'', JStr ''Image data is required'')])\<rparr>, [])
         \<and> identify_plant_gemini rt req api_key fr
           = (\<lparr>resp_status = 400,
               resp_body = Some (JObj [(''error'', JStr ''Image data is required'')])\<rparr>, [])
         \<and> identify_plant_plantid rt req api_key fr
           = (\<lparr>resp_status = 400,
               resp_body = Some (JObj [(''error'', JStr ''Image data is required'')])\<rparr>, [])
         \<and> identify_plant_plantid_v1 rt req api_key fr
           = (\<lparr>resp_status = 400,
               resp_body = Some (JObj [(''error'', JStr ''Image data is required'')])\<rparr>, [])"
  using assms
  by (simp add: verify_plant_def identify_plant_gemini_def identify_plant_plantid_def
      identify_plant_plantid_v1_def plantid_handler_def image_of_def image_required_def)

theorem missing_image_is_rejected_witness:
  "http_method empty_request \<noteq> ''OPTIONS'' \<and> req_body empty_request = Json (JObj [])
   \<and> JObj [] \<noteq> JNull \<and> \<not> truthy (get_prop (JObj []) ''imageBase64'')
   \<and> verify_plant small_runtime empty_request (Some ''key'') (FetchResponse 200 (Json (chat_reply ''{}'')))
       = (\<lparr>resp_status = 400,
           resp_body = Some (JObj [(''error'', JStr ''Image data is required'')])\<rparr>, [])
   \<and> identify_plant_gemini small_runtime empty_request (Some ''key'') (FetchFails ''timeout'')
       = (\<lparr>resp_status = 400,
           resp_body = Some (JObj [(''error'', JStr ''Image data is required'')])\<rparr>, [])"
  using missing_image_is_rejected[of empty_request "JObj []" small_runtime "Some ''key''"
      "FetchResponse 200 (Json (chat_reply ''{}''))"]
    missing_image_is_rejected[of empty_request "JObj []" small_runtime "Some ''key''"
      "FetchFails ''timeout''"]
  by (simp add: empty_request_def)

section \<open>The scenario of the rose\<close>

lemma split_rosa:
  "split ''A flowering shrub. It has thorns. It blooms in summer. It needs full sun.'' ''. ''
     = [''A flowering shrub'', ''It has thorns'', ''It blooms in summer'', ''It needs full sun.'']"
  by code_simp

lemma plantid_normalize_rosa:
  "plantid_normalize rt rosa_response =
     Inr \<lparr>resp_status = 200, resp_body = Some (JObj
       [(''commonName'', JStr ''Rose''),
        (''scientificName'', JStr ''Rosa''),
        (''about'', JStr ''A flowering shrub. It has thorns.''),
        (''explanation'', JStr ''It blooms in summer. It needs full sun..''),
        (''additionalInfo'', JArr
           [JStr (''Watering: Every '' @ number_to_string rt 5 @ '' days''),
            JStr ''Sunlight: Moderate to bright indirect light'',
            JStr ''Soil: Well-draining potting mix'',
            JStr ''Growth: Moderate growth rate'',
            JStr ''Native: Varies by species'']),
        (''wateringFrequencyDays'', JNum 5),
        (''probability'', JNum (9 / 10))])\<rparr>"
  unfolding plantid_normalize_def plantid_result_def plantid_raw_description_def
    plantid_fields_def plantid_details_def plantid_common_names_def plantid_scientific_name_def
    plantid_watering_def rosa_response_def
  by (simp add: js_or_def split_rosa slice_def plantid_additional_info_def tmpl_def bind_exn_def
      Let_def)

text \<open>
  Claim C7. Normalizing the raw provider response whose first suggestion is the rose of
  the scenario gives a response with status 200 whose body has \<open>commonName = "Rose"\<close>,
  \<open>scientificName = "Rosa"\<close>, \<open>about = "A flowering shrub. It has thorns."\<close>,
  \<open>wateringFrequencyDays = 5\<close> and \<open>probability = 0.9\<close>.
\<close>

theorem rosa_scenario:
  "\<exists>b. plantid_normalize rt rosa_response = Inr \<lparr>resp_status = 200, resp_body = Some b\<rparr>
       \<and> get_prop b ''commonName'' = Some (JStr ''Rose'')
       \<and> get_prop b ''scientificName'' = Some (JStr ''Rosa'')
       \<and> get_prop b ''about'' = Some (JStr ''A flowering shrub. It has thorns.'')
       \<and> get_prop b ''wateringFrequencyDays'' = Some (JNum 5)
       \<and> get_prop b ''probability'' = Some (JNum (9 / 10))"
  by (simp add: plantid_normalize_rosa)

section \<open>What a run that ends in a result went through\<close>

lemma identify_calls_short: "identify_calls [''verify-plant''] = 0"
  by (simp add: identify_calls_def)

lemma identify_calls_both: "identify_calls [''verify-plant'', ''identify-plant''] = 1"
  by (simp add: identify_calls_def)

lemma processImage_cases:
  "processImage verified identified p = (OnError NotAPlantNotice, [''verify-plant''])
   \<or> processImage verified identified p
        = (identify_step identified p, [''verify-plant'', ''identify-plant''])"
  by (auto simp: processImage_def split: invoke_result.splits)

lemma processImage_unrecognised:
  assumes "identify_step identified p = OnError UnrecognisedNotice"
  shows "outcome_of (fst (processImage verified identified p))
           = (if identify_calls (snd (processImage verified identified p)) = 0
              then NotAPlant else LowConfidence)"
  using processImage_cases[of verified identified p] assms
  by (auto simp: identify_calls_short identify_calls_both)

lemma identify_step_low:
  assumes "resp_status r = 200" and "opt_prop (resp_body r) ''lowConfidence'' = Some (JBool True)"
  shows "identify_step (invoke r) p = OnError UnrecognisedNotice"
proof -
  from assms(2) obtain b where "resp_body r = Some b"
    by (cases "resp_body r") auto
  with assms show ?thesis
    by (cases b) (auto simp: identify_step_def invoke_def ok_def)
qed

lemma identify_step_Success:
  assumes "outcome_of (identify_step identified p) = Success d"
  shows "\<exists>kvs. identified = InvokeData (Some (JObj kvs))
           \<and> truthy (map_of kvs ''commonName'') \<and> \<not> truthy (map_of kvs ''lowConfidence'')
           \<and> d = JObj (set_prop kvs ''imageUrl'' (JStr p))"
proof (cases identified)
  case InvokeError
  with assms show ?thesis by (simp add: identify_step_def)
next
  case (InvokeData b)
  show ?thesis
  proof (cases b)
    case None
    with assms InvokeData show ?thesis by (simp add: identify_step_def)
  next
    case (Some v)
    with assms InvokeData show ?thesis
      by (cases v) (auto simp: identify_step_def split: if_splits)
  qed
qed

lemma processImage_Success:
  assumes "outcome_of (fst (processImage verified identified p)) = Success d"
  shows "outcome_of (identify_step identified p) = Success d"
  using assms processImage_cases[of verified identified p] by auto

lemma invoke_Data: "invoke r = InvokeData b \<Longrightarrow> ok (resp_status r) \<and> resp_body r = b"
  by (auto simp: invoke_def split: if_splits)

lemma new_response_status: "new_response st b = Inr r \<Longrightarrow> \<not> ok st \<Longrightarrow> \<not> ok (resp_status r)"
  by (auto simp: new_response_def split: if_splits)

lemma gemini_normalize_named:
  assumes "gemini_normalize rt ai = Inr r" and "resp_body r = Some (JObj kvs)"
    and "truthy (map_of kvs ''commonName'')"
  shows "\<exists>pd. gemini_result rt (JObj pd) = Inr r"
  using assms
  by (auto simp: gemini_normalize_def split: sum.splits if_splits option.splits)

lemma gemini_after_fetch_named:
  assumes "gemini_after_fetch rt fr = Inr r" and "ok (resp_status r)"
    and "resp_body r = Some (JObj kvs)" and "truthy (map_of kvs ''commonName'')"
  shows "\<exists>pd. gemini_result rt (JObj pd) = Inr r"
proof (cases fr)
  case (FetchFails m)
  with assms show ?thesis by (simp add: gemini_after_fetch_def)
next
  case (FetchResponse st p)
  show ?thesis
  proof (cases "ok st")
    case True
    with assms FetchResponse obtain ai where "gemini_normalize rt ai = Inr r"
      by (auto simp: gemini_after_fetch_def split: sum.splits)
    with assms show ?thesis using gemini_normalize_named by blast
  next
    case False
    with assms FetchResponse show ?thesis
      by (auto simp: gemini_after_fetch_def api_error_def ok_def
          split: sum.splits if_splits dest: new_response_status)
  qed
qed

lemma gemini_handler_named:
  assumes "invoke (fst (identify_plant_gemini rt req api_key fr)) = InvokeData (Some (JObj kvs))"
    and "truthy (map_of kvs ''commonName'')"
  shows "\<exists>pd. gemini_result rt (JObj pd) = Inr (fst (identify_plant_gemini rt req api_key fr))"
proof -
  let ?r = "fst (identify_plant_gemini rt req api_key fr)"
  from assms(1) have okr: "ok (resp_status ?r)" and body: "resp_body ?r = Some (JObj kvs)"
    by (auto dest: invoke_Data)
  then have "gemini_after_fetch rt fr = Inr ?r"
    by (auto simp: identify_plant_gemini_def preflight_def api_error_def image_required_def ok_def
        split: if_splits sum.splits)
  with okr body assms(2) show ?thesis using gemini_after_fetch_named by blast
qed

lemma gemini_fields_distinct: "distinct (map fst (gemini_fields pd info))"
  by (simp add: gemini_fields_def)

lemma gemini_probability:
  "map_of (mk_obj (gemini_fields pd info)) ''probability''
     = js_or (get_prop pd ''confidence'') (Some (JNum (4 / 5)))"
  by (simp add: map_of_mk_obj gemini_fields_distinct) (simp add: gemini_fields_def)

lemma gemini_low_confidence_body:
  "resp_status (gemini_low_confidence pd) = 200"
  "\<exists>kvs. resp_body (gemini_low_confidence pd) = Some (JObj kvs)
         \<and> map_of kvs ''commonName'' = None
         \<and> map_of kvs ''lowConfidence'' = Some (JBool True)"
  by (simp_all add: gemini_low_confidence_def map_of_mk_obj)

lemma gemini_result_cases:
  assumes "gemini_result rt pd = Inr r"
  shows "r = gemini_low_confidence pd
         \<or> (truthy (get_prop pd ''identified'')
            \<and> js_less rt (get_prop pd ''confidence'') (1 / 2) = Inr False
            \<and> (\<exists>info. gemini_additional_info rt pd = Inr info
                  \<and> r = \<lparr>resp_status = 200,
                          resp_body = Some (JObj (mk_obj (gemini_fields pd info)))\<rparr>))"
  using assms
  by (auto simp: gemini_result_def bind_exn_def split: if_splits sum.splits)

lemma gemini_result_named:
  assumes "gemini_result rt pd = Inr r" and "resp_body r = Some (JObj kvs)"
    and "truthy (map_of kvs ''commonName'')"
  shows "truthy (get_prop pd ''identified'')
         \<and> js_less rt (get_prop pd ''confidence'') (1 / 2) = Inr False
         \<and> (\<exists>info. gemini_additional_info rt pd = Inr info
               \<and> kvs = mk_obj (gemini_fields pd info))"
proof -
  have "r \<noteq> gemini_low_confidence pd"
  proof
    assume "r = gemini_low_confidence pd"
    with assms(2) gemini_low_confidence_body(2)[of pd] have "map_of kvs ''commonName'' = None"
      by auto
    with assms(3) show False by simp
  qed
  with gemini_result_cases[OF assms(1)] assms(2) show ?thesis by auto
qed

lemma js_less_default:
  assumes "js_less rt conf (1 / 2) = Inr False"
  shows "js_less rt (js_or conf (Some (JNum (4 / 5)))) (1 / 2) = Inr False"
  using assms by (auto simp: js_or_def js_less_def)

lemma js_less_candidate:
  assumes "js_less rt (js_or conf (Some (JNum (4 / 5)))) (1 / 2) = Inr True"
  shows "js_less rt conf (1 / 2) = Inr True"
proof (cases "truthy conf")
  case True
  with assms show ?thesis by (simp add: js_or_def)
next
  case False
  with assms show ?thesis by (simp add: js_or_def js_less_def)
qed

lemma gemini_success_fields:
  assumes "outcome_of (fst (processImage verified
             (invoke (fst (identify_plant_gemini rt req api_key fr))) p)) = Success d"
  shows "\<exists>pd info. js_less rt (get_prop (JObj pd) ''confidence'') (1 / 2) = Inr False
           \<and> gemini_additional_info rt (JObj pd) = Inr info
           \<and> d = JObj (set_prop (mk_obj (gemini_fields (JObj pd) info)) ''imageUrl'' (JStr p))"
proof -
  from assms obtain kvs where
    iv: "invoke (fst (identify_plant_gemini rt req api_key fr)) = InvokeData (Some (JObj kvs))"
    and cn: "truthy (map_of kvs ''commonName'')"
    and d: "d = JObj (set_prop kvs ''imageUrl'' (JStr p))"
    using processImage_Success identify_step_Success by blast
  from iv cn obtain pd where
    r: "gemini_result rt (JObj pd) = Inr (fst (identify_plant_gemini rt req api_key fr))"
    using gemini_handler_named by blast
  from iv have "resp_body (fst (identify_plant_gemini rt req api_key fr)) = Some (JObj kvs)"
    by (auto dest: invoke_Data)
  with r cn d show ?thesis
    using gemini_result_named[of rt "JObj pd" _ kvs] by blast
qed

lemma gemini_success_probability:
  assumes "outcome_of (fst (processImage verified
             (invoke (fst (identify_plant_gemini rt req api_key fr))) p)) = Success d"
  shows "js_less rt (get_prop d ''probability'') (1 / 2) = Inr False"
proof -
  from gemini_success_fields[OF assms] obtain pd info where
    gate: "js_less rt (get_prop (JObj pd) ''confidence'') (1 / 2) = Inr False"
    and d: "d = JObj (set_prop (mk_obj (gemini_fields (JObj pd) info)) ''imageUrl'' (JStr p))"
    by blast
  have "get_prop d ''probability''
          = js_or (get_prop (JObj pd) ''confidence'') (Some (JNum (4 / 5)))"
    by (simp add: d map_of_set_prop_other gemini_probability)
  then show ?thesis
    using js_less_default[OF gate] by simp
qed


lemma faint_run:
  "processImage plant_verdict
     (invoke (fst (identify_plant_plantid small_runtime photo_request (Some ''key'')
                     (FetchResponse 200 (Json faint_response)))))
     ''data:image/jpeg;base64,aGVsbG8=''
   = (OnIdentified (JObj
        [(''commonName'', JStr ''Rosa''), (''scientificName'', JStr ''Rosa''),
         (''about'', JStr ''No description available.''),
         (''explanation'', JStr ''No description available.''),
         (''additionalInfo'', JArr
            [JStr ''Watering: Every 7 days'',
             JStr ''Sunlight: Moderate to bright indirect light'',
             JStr ''Soil: Well-draining potting mix'',
             JStr ''Growth: Moderate growth rate'',
             JStr ''Native: Varies by species'']),
         (''wateringFrequencyDays'', JNum 7), (''probability'', JNum (3 / 10)),
         (''imageUrl'', JStr ''data:image/jpeg;base64,aGVsbG8='')]),
      [''verify-plant'', ''identify-plant''])"
  by code_simp

lemma sure_run:
  "processImage plant_verdict
     (invoke (fst (identify_plant_gemini small_runtime photo_request (Some ''key'')
                     (FetchResponse 200 (Json (gemini_reply sure_text))))))
     ''data:image/jpeg;base64,aGVsbG8=''
   = (OnIdentified (JObj
        [(''commonName'', JStr ''Fern''),
         (''scientificName'', JStr ''Species unknown''),
         (''about'', JStr ''A beautiful plant species.''),
         (''explanation'', JStr ''No additional details available.''),
         (''additionalInfo'', JArr
            [JStr ''Watering: Every 7 days'',
             JStr ''Sunlight: Moderate indirect light'',
             JStr ''Soil: Well-draining potting mix'',
             JStr ''Native to: Various regions'',
             JStr ''Care Level: Moderate'']),
         (''wateringFrequencyDays'', JNum 7), (''probability'', JNum (9 / 10)),
         (''imageUrl'', JStr ''data:image/jpeg;base64,aGVsbG8='')]),
      [''verify-plant'', ''identify-plant''])"
  by code_simp

lemma rosa_run:
  "processImage plant_verdict
     (invoke (fst (identify_plant_plantid small_runtime photo_request (Some ''key'')
                     (FetchResponse 200 (Json rosa_response)))))
     ''data:image/jpeg;base64,aGVsbG8=''
   = (OnIdentified (JObj
        [(''commonName'', JStr ''Rose''), (''scientificName'', JStr ''Rosa''),
         (''about'', JStr ''A flowering shrub. It has thorns.''),
         (''explanation'', JStr ''It blooms in summer. It needs full sun..''),
         (''additionalInfo'', JArr
            [JStr ''Watering: Every 5 days'',
             JStr ''Sunlight: Moderate to bright indirect light'',
             JStr ''Soil: Well-draining potting mix'',
             JStr ''Growth: Moderate growth rate'',
             JStr ''Native: Varies by species'']),
         (''wateringFrequencyDays'', JNum 5), (''probability'', JNum (9 / 10)),
         (''imageUrl'', JStr ''data:image/jpeg;base64,aGVsbG8='')]),
      [''verify-plant'', ''identify-plant''])"
  by code_simp

lemma unsure_data:
  "gemini_plant_data small_runtime (Some (JStr unsure_text))
     = Some [(''identified'', JBool True), (''confidence'', JNum (3 / 10)),
             (''commonName'', JStr ''Fern'')]"
  by code_simp

lemma gemini_content_reply: "gemini_content (gemini_reply c) = Inr (Some (JStr c))"
proof (cases c)
  case Nil
  then show ?thesis by (simp add: gemini_content_def gemini_reply_def)
next
  case (Cons a as)
  then show ?thesis by (simp add: gemini_content_def gemini_reply_def)
qed

lemma ok_200: "ok 200"
  by (simp add: ok_def)


lemma json_match_nonempty: "json_match c = Some m \<Longrightarrow> c \<noteq> []"
  by (auto simp: json_match_def)

lemma gemini_plant_data_truthy: "gemini_plant_data rt content = Some pd \<Longrightarrow> truthy content"
  by (auto simp: gemini_plant_data_def split: option.splits json.splits dest: json_match_nonempty)

lemma gemini_handler_parsed:
  assumes "reaches_provider req api_key" and "ok st"
    and "gemini_content aiResponse = Inr content"
    and "gemini_plant_data rt content = Some plantData"
  shows "fst (identify_plant_gemini rt req api_key (FetchResponse st (Json aiResponse)))
           = (case gemini_result rt (JObj plantData) of
                Inl e \<Rightarrow> api_error 500 (message_of rt e)
              | Inr r \<Rightarrow> r)"
  using assms gemini_plant_data_truthy[OF assms(4)]
  by (simp add: gemini_reached gemini_after_fetch_def gemini_normalize_def split: sum.splits)

lemma gemini_result_low:
  assumes "js_less rt (get_prop pd ''confidence'') (1 / 2) = Inr True"
  shows "gemini_result rt pd = Inr (gemini_low_confidence pd)"
  using assms by (simp add: gemini_result_def bind_exn_def)

section \<open>The confidence gate\<close>

theorem plantid_has_no_gate:
  "outcome_of (fst (processImage plant_verdict
      (invoke (fst (identify_plant_plantid small_runtime photo_request (Some ''key'')
                      (FetchResponse 200 (Json faint_response)))))
      ''data:image/jpeg;base64,aGVsbG8=''))
   = Success (JObj
       [(''commonName'', JStr ''Rosa''), (''scientificName'', JStr ''Rosa''),
        (''about'', JStr ''No description available.''),
        (''explanation'', JStr ''No description available.''),
        (''additionalInfo'', JArr
           [JStr ''Watering: Every 7 days'',
            JStr ''Sunlight: Moderate to bright indirect light'',
            JStr ''Soil: Well-draining potting mix'',
            JStr ''Growth: Moderate growth rate'',
            JStr ''Native: Varies by species'']),
        (''wateringFrequencyDays'', JNum 7), (''probability'', JNum (3 / 10)),
        (''imageUrl'', JStr ''data:image/jpeg;base64,aGVsbG8='')])
   \<and> js_less small_runtime (Some (JNum (3 / 10))) (1 / 2) = Inr True"
  by (simp add: faint_run js_less_def)

text \<open>
  Claim C1, as the code has it: the gate is in the Gemini version of \<open>identify-plant\<close>.
  For every run on that version in which the model's answer parses and the candidate result
  built from it has a \<open>probability\<close> strictly below 0.5, the endpoint answers 200 with
  \<open>lowConfidence: true\<close> and the run ends with the low-confidence outcome (or, when the
  verifier stopped it before the identification call, with not-a-plant); and no run on that
  version, whatever the request, the key, the provider's answer and the verifier's verdict,
  ends in Success with a result whose \<open>probability\<close> is below 0.5.
\<close>

theorem gemini_confidence_gate:
  "(reaches_provider req api_key \<and> ok st
      \<and> gemini_content aiResponse = Inr content
      \<and> gemini_plant_data rt content = Some plantData
      \<and> js_less rt (map_of (mk_obj (gemini_fields (JObj plantData) info)) ''probability'') (1 / 2)
          = Inr True
    \<longrightarrow>
      resp_status (fst (identify_plant_gemini rt req api_key (FetchResponse st (Json aiResponse))))
        = 200
      \<and> opt_prop (resp_body (fst (identify_plant_gemini rt req api_key
                                    (FetchResponse st (Json aiResponse))))) ''lowConfidence''
        = Some (JBool True)
      \<and> outcome_of (fst (processImage verified
           (invoke (fst (identify_plant_gemini rt req api_key (FetchResponse st (Json aiResponse)))))
           p))
        = (if identify_calls (snd (processImage verified
                (invoke (fst (identify_plant_gemini rt req api_key
                                (FetchResponse st (Json aiResponse))))) p)) = 0
           then NotAPlant else LowConfidence))
   \<and> (outcome_of (fst (processImage verified'
          (invoke (fst (identify_plant_gemini rt req' api_key' fr'))) p')) = Success d
    \<longrightarrow> js_less rt (get_prop d ''probability'') (1 / 2) = Inr False)"
proof (intro conjI impI)
  assume a: "reaches_provider req api_key \<and> ok st
      \<and> gemini_content aiResponse = Inr content
      \<and> gemini_plant_data rt content = Some plantData
      \<and> js_less rt (map_of (mk_obj (gemini_fields (JObj plantData) info)) ''probability'') (1 / 2)
          = Inr True"
  let ?r = "fst (identify_plant_gemini rt req api_key (FetchResponse st (Json aiResponse)))"
  from a have "js_less rt (get_prop (JObj plantData) ''confidence'') (1 / 2) = Inr True"
    using js_less_candidate by (simp only: gemini_probability)
  then have "gemini_result rt (JObj plantData) = Inr (gemini_low_confidence (JObj plantData))"
    by (rule gemini_result_low)
  with a have r: "?r = gemini_low_confidence (JObj plantData)"
    using gemini_handler_parsed[of req api_key st aiResponse content rt plantData] by simp
  have low: "resp_status ?r = 200"
    "opt_prop (resp_body ?r) ''lowConfidence'' = Some (JBool True)"
    using gemini_low_confidence_body[of "JObj plantData"] by (auto simp: r)
  show "resp_status ?r = 200" by (rule low(1))
  show "opt_prop (resp_body ?r) ''lowConfidence'' = Some (JBool True)" by (rule low(2))
  show "outcome_of (fst (processImage verified (invoke ?r) p))
          = (if identify_calls (snd (processImage verified (invoke ?r) p)) = 0
             then NotAPlant else LowConfidence)"
    using low by (intro processImage_unrecognised identify_step_low)
next
  assume "outcome_of (fst (processImage verified'
            (invoke (fst (identify_plant_gemini rt req' api_key' fr'))) p')) = Success d"
  then show "js_less rt (get_prop d ''probability'') (1 / 2) = Inr False"
    by (rule gemini_success_probability)
qed

theorem gemini_confidence_gate_witness:
  "reaches_provider photo_request (Some ''key'') \<and> ok 200
   \<and> gemini_content (gemini_reply unsure_text) = Inr (Some (JStr unsure_text))
   \<and> gemini_plant_data small_runtime (Some (JStr unsure_text))
       = Some [(''identified'', JBool True), (''confidence'', JNum (3 / 10)),
               (''commonName'', JStr ''Fern'')]
   \<and> js_less small_runtime
        (map_of (mk_obj (gemini_fields (JObj
           [(''identified'', JBool True), (''confidence'', JNum (3 / 10)),
            (''commonName'', JStr ''Fern'')]) [])) ''probability'') (1 / 2) = Inr True
   \<and> outcome_of (fst (processImage plant_verdict
        (invoke (fst (identify_plant_gemini small_runtime photo_request (Some ''key'')
                        (FetchResponse 200 (Json (gemini_reply unsure_text))))))
        ''data:image/jpeg;base64,aGVsbG8='')) = LowConfidence
   \<and> outcome_of (fst (processImage plant_verdict
        (invoke (fst (identify_plant_gemini small_runtime photo_request (Some ''key'')
                        (FetchResponse 200 (Json (gemini_reply sure_text))))))
        ''data:image/jpeg;base64,aGVsbG8=''))
       = Success (JObj
           [(''commonName'', JStr ''Fern''),
            (''scientificName'', JStr ''Species unknown''),
            (''about'', JStr ''A beautiful plant species.''),
            (''explanation'', JStr ''No additional details available.''),
            (''additionalInfo'', JArr
               [JStr ''Watering: Every 7 days'',
                JStr ''Sunlight: Moderate indirect light'',
                JStr ''Soil: Well-draining potting mix'',
                JStr ''Native to: Various regions'',
                JStr ''Care Level: Moderate'']),
            (''wateringFrequencyDays'', JNum 7), (''probability'', JNum (9 / 10)),
            (''imageUrl'', JStr ''data:image/jpeg;base64,aGVsbG8='')])
   \<and> js_less small_runtime (Some (JNum (9 / 10))) (1 / 2) = Inr False"
proof -
  let ?pd = "[(''identified'', JBool True), (''confidence'', JNum (3 / 10)),
              (''commonName'', JStr ''Fern'')]"
  have h: "js_less small_runtime
             (map_of (mk_obj (gemini_fields (JObj ?pd) [])) ''probability'') (1 / 2) = Inr True"
    by (simp add: gemini_probability js_or_def js_less_def)
  have calls: "identify_calls (snd (processImage plant_verdict iv q)) \<noteq> 0" for iv q
    by (simp add: processImage_def plant_verdict_def identify_calls_both)
  show ?thesis
    using gemini_confidence_gate[of photo_request "Some ''key''" 200 "gemini_reply unsure_text"
        "Some (JStr unsure_text)" small_runtime ?pd "[]" plant_verdict
        "''data:image/jpeg;base64,aGVsbG8=''" plant_verdict photo_request "Some ''key''"
        "FetchResponse 200 (Json (gemini_reply sure_text))" "''data:image/jpeg;base64,aGVsbG8=''"
        "JObj
           [(''commonName'', JStr ''Fern''),
            (''scientificName'', JStr ''Species unknown''),
            (''about'', JStr ''A beautiful plant species.''),
            (''explanation'', JStr ''No additional details available.''),
            (''additionalInfo'', JArr
               [JStr ''Watering: Every 7 days'',
                JStr ''Sunlight: Moderate indirect light'',
                JStr ''Soil: Well-draining potting mix'',
                JStr ''Native to: Various regions'',
                JStr ''Care Level: Moderate'']),
            (''wateringFrequencyDays'', JNum 7), (''probability'', JNum (9 / 10)),
            (''imageUrl'', JStr ''data:image/jpeg;base64,aGVsbG8='')]"]
      photo_request_reaches ok_200 gemini_content_reply[of unsure_text] unsure_data h calls
    by (simp add: sure_run)
qed

section \<open>An answer of the model that does not parse\<close>

lemma gemini_plant_data_unparsed:
  assumes "case json_match c of None \<Rightarrow> True | Some m \<Rightarrow> json_parse rt m = None"
  shows "gemini_plant_data rt (Some (JStr c)) = None"
  using assms by (simp add: gemini_plant_data_def split: option.splits)

lemma gemini_normalize_unparsed:
  assumes "gemini_content aiResponse = Inr (Some (JStr c))"
    and "case json_match c of None \<Rightarrow> True | Some m \<Rightarrow> json_parse rt m = None"
  shows "\<exists>msg. gemini_normalize rt aiResponse
           = Inr \<lparr>resp_status = 200, resp_body = Some (JObj
                [(''error'', JStr msg), (''lowConfidence'', JBool True)])\<rparr>"
  using assms gemini_plant_data_unparsed[OF assms(2)]
  by (simp add: gemini_normalize_def)

text \<open>
  Claim C4. When the text of the model's answer has no brace-delimited part, or has one
  that \<open>JSON.parse\<close> rejects, the Gemini version of \<open>identify-plant\<close> answers with status 200
  and \<open>lowConfidence: true\<close>, and \<open>processImage\<close> ends with the low-confidence outcome, not
  with the transient error (when the verifier stopped the run before the identification
  call, the outcome is not-a-plant).
\<close>

theorem unparseable_answer_is_low_confidence:
  assumes "reaches_provider req api_key" and "ok st"
    and "gemini_content aiResponse = Inr (Some (JStr c))"
    and "case json_match c of None \<Rightarrow> True | Some m \<Rightarrow> json_parse rt m = None"
  shows "resp_status (fst (identify_plant_gemini rt req api_key (FetchResponse st (Json aiResponse))))
           = 200
         \<and> opt_prop (resp_body (fst (identify_plant_gemini rt req api_key
                                       (FetchResponse st (Json aiResponse))))) ''lowConfidence''
           = Some (JBool True)
         \<and> outcome_of (fst (processImage verified
              (invoke (fst (identify_plant_gemini rt req api_key
                              (FetchResponse st (Json aiResponse))))) p))
           = (if identify_calls (snd (processImage verified
                   (invoke (fst (identify_plant_gemini rt req api_key
                                   (FetchResponse st (Json aiResponse))))) p)) = 0
              then NotAPlant else LowConfidence)
         \<and> outcome_of (fst (processImage verified
              (invoke (fst (identify_plant_gemini rt req api_key
                              (FetchResponse st (Json aiResponse))))) p))
           \<noteq> TransientError"
proof -
  let ?r = "fst (identify_plant_gemini rt req api_key (FetchResponse st (Json aiResponse)))"
  from gemini_normalize_unparsed[OF assms(3,4)] obtain msg where
    "gemini_normalize rt aiResponse
       = Inr \<lparr>resp_status = 200, resp_body = Some (JObj
            [(''error'', JStr msg), (''lowConfidence'', JBool True)])\<rparr>"
    by blast
  with assms(1,2) have r: "?r = \<lparr>resp_status = 200, resp_body = Some (JObj
            [(''error'', JStr msg), (''lowConfidence'', JBool True)])\<rparr>"
    by (simp add: gemini_reached gemini_after_fetch_def)
  then have low: "resp_status ?r = 200"
    "opt_prop (resp_body ?r) ''lowConfidence'' = Some (JBool True)"
    by simp_all
  have out: "outcome_of (fst (processImage verified (invoke ?r) p))
          = (if identify_calls (snd (processImage verified (invoke ?r) p)) = 0
             then NotAPlant else LowConfidence)"
    using low by (intro processImage_unrecognised identify_step_low)
  then have "outcome_of (fst (processImage verified (invoke ?r) p)) \<noteq> TransientError"
    by (simp split: if_splits)
  with low out show ?thesis by simp
qed

lemma prose_no_match: "json_match ''I am not sure what this is.'' = None"
  by code_simp

theorem unparseable_answer_is_low_confidence_witness:
  "reaches_provider photo_request (Some ''key'') \<and> ok 200
   \<and> gemini_content (gemini_reply ''I am not sure what this is.'')
       = Inr (Some (JStr ''I am not sure what this is.''))
   \<and> json_match ''I am not sure what this is.'' = None
   \<and> resp_status (fst (identify_plant_gemini small_runtime photo_request (Some ''key'')
        (FetchResponse 200 (Json (gemini_reply ''I am not sure what this is.''))))) = 200
   \<and> outcome_of (fst (processImage plant_verdict
        (invoke (fst (identify_plant_gemini small_runtime photo_request (Some ''key'')
           (FetchResponse 200 (Json (gemini_reply ''I am not sure what this is.''))))))
        ''data:image/jpeg;base64,aGVsbG8='')) = LowConfidence"
proof -
  have calls: "identify_calls (snd (processImage plant_verdict iv q)) \<noteq> 0" for iv q
    by (simp add: processImage_def plant_verdict_def identify_calls_both)
  have m: "case json_match ''I am not sure what this is.'' of None \<Rightarrow> True
           | Some m \<Rightarrow> json_parse small_runtime m = None"
    by (simp add: prose_no_match)
  show ?thesis
    using unparseable_answer_is_low_confidence[OF photo_request_reaches ok_200
        gemini_content_reply[of "''I am not sure what this is.''"] m,
        of plant_verdict "''data:image/jpeg;base64,aGVsbG8=''"]
      photo_request_reaches ok_200 gemini_content_reply[of "''I am not sure what this is.''"]
      prose_no_match calls
    by simp
qed

section \<open>The list of facts in a result\<close>

lemma plantid_result_named:
  assumes "plantid_result rt sug = Inr r"
  shows "\<exists>dsc info. plantid_raw_description sug = Some (JStr dsc)
           \<and> plantid_additional_info rt (plantid_watering sug) = Inr info
           \<and> r = \<lparr>resp_status = 200,
                   resp_body = Some (JObj (mk_obj (plantid_fields sug dsc info)))\<rparr>"
  using assms
  by (auto simp: plantid_result_def bind_exn_def split: option.splits json.splits sum.splits)

lemma plantid_normalize_named:
  assumes "plantid_normalize rt data = Inr r" and "ok (resp_status r)"
  shows "\<exists>sug. plantid_result rt sug = Inr r"
  using assms
  by (auto simp: plantid_normalize_def plain_error_def ok_def Let_def split: if_splits)

lemma plantid_after_fetch_named:
  assumes "plantid_after_fetch (plantid_normalize rt) fr = Inr r" and "ok (resp_status r)"
  shows "\<exists>sug. plantid_result rt sug = Inr r"
proof (cases fr)
  case (FetchFails m)
  with assms show ?thesis by (simp add: plantid_after_fetch_def)
next
  case (FetchResponse st p)
  show ?thesis
  proof (cases "ok st")
    case True
    with assms FetchResponse obtain data where "plantid_normalize rt data = Inr r"
      by (auto simp: plantid_after_fetch_def split: sum.splits)
    with assms show ?thesis using plantid_normalize_named by blast
  next
    case False
    with assms FetchResponse show ?thesis
      by (auto simp: plantid_after_fetch_def split: sum.splits dest: new_response_status)
  qed
qed

lemma plantid_handler_named:
  assumes "invoke (fst (identify_plant_plantid rt req api_key fr)) = InvokeData (Some (JObj kvs))"
  shows "\<exists>sug dsc info. plantid_additional_info rt (plantid_watering sug) = Inr info
           \<and> kvs = mk_obj (plantid_fields sug dsc info)"
proof -
  let ?r = "fst (identify_plant_plantid rt req api_key fr)"
  from assms have okr: "ok (resp_status ?r)" and body: "resp_body ?r = Some (JObj kvs)"
    by (auto dest: invoke_Data)
  then have "plantid_after_fetch (plantid_normalize rt) fr = Inr ?r"
    by (auto simp: identify_plant_plantid_def plantid_handler_def preflight_def plain_error_def
        image_required_def ok_def split: if_splits sum.splits)
  with okr obtain sug where "plantid_result rt sug = Inr ?r"
    using plantid_after_fetch_named by blast
  from plantid_result_named[OF this] body show ?thesis by fastforce
qed

lemma plantid_fields_distinct: "distinct (map fst (plantid_fields sug dsc info))"
  by (simp add: plantid_fields_def Let_def)

lemma truthy_present: "truthy a \<Longrightarrow> \<exists>y. a = Some y"
  by (cases a) auto

lemma js_or_present: "\<exists>y. js_or a (Some d) = Some y"
  using truthy_present[of a] by (auto simp: js_or_def)

lemma plantid_facts:
  assumes "plantid_additional_info rt (plantid_watering sug) = Inr info"
  shows "\<exists>w n. map_of (mk_obj (plantid_fields sug dsc info)) ''wateringFrequencyDays'' = Some w
      \<and> to_string rt w = Inr n
      \<and> map_of (mk_obj (plantid_fields sug dsc info)) ''additionalInfo''
          = Some (JArr [JStr (''Watering: Every '' @ n @ '' days''),
                        JStr ''Sunlight: Moderate to bright indirect light'',
                        JStr ''Soil: Well-draining potting mix'',
                        JStr ''Growth: Moderate growth rate'',
                        JStr ''Native: Varies by species''])"
proof -
  obtain w where w: "plantid_watering sug = Some w"
    using js_or_present by (auto simp: plantid_watering_def)
  from assms obtain n where n: "to_string rt w = Inr n"
    and info: "info = [''Watering: Every '' @ n @ '' days'',
                       ''Sunlight: Moderate to bright indirect light'',
                       ''Soil: Well-draining potting mix'',
                       ''Growth: Moderate growth rate'',
                       ''Native: Varies by species'']"
    by (auto simp: plantid_additional_info_def bind_exn_def tmpl_def w split: sum.splits)
  have "map_of (mk_obj (plantid_fields sug dsc info)) ''wateringFrequencyDays'' = Some w"
    by (simp add: map_of_mk_obj plantid_fields_distinct)
       (simp add: plantid_fields_def Let_def w)
  moreover have "map_of (mk_obj (plantid_fields sug dsc info)) ''additionalInfo''
          = Some (JArr (map JStr info))"
    by (simp add: map_of_mk_obj plantid_fields_distinct)
       (simp add: plantid_fields_def Let_def)
  ultimately show ?thesis
    using n by (simp add: info)
qed

lemma bind_exn_Inr: "bind_exn m f = Inr y \<Longrightarrow> \<exists>v. m = Inr v \<and> f v = Inr y"
  by (cases m) (simp_all add: bind_exn_def)

lemma gemini_facts:
  assumes "gemini_additional_info rt pd = Inr info"
  shows "\<exists>w n a b c e. map_of (mk_obj (gemini_fields pd info)) ''wateringFrequencyDays'' = Some w
      \<and> to_string rt w = Inr n
      \<and> map_of (mk_obj (gemini_fields pd info)) ''additionalInfo''
          = Some (JArr [JStr (''Watering: Every '' @ n @ '' days''),
                        JStr (''Sunlight: '' @ a), JStr (''Soil: '' @ b),
                        JStr (''Native to: '' @ c), JStr (''Care Level: '' @ e)])"
proof -
  obtain w where w: "js_or (get_prop pd ''wateringFrequencyDays'') (Some (JNum 7)) = Some w"
    using js_or_present by blast
  from assms obtain n a b c e where n: "tmpl rt (Some w) = Inr n"
    and info: "info = [''Watering: Every '' @ n @ '' days'', ''Sunlight: '' @ a, ''Soil: '' @ b,
                       ''Native to: '' @ c, ''Care Level: '' @ e]"
    unfolding gemini_additional_info_def w
    by (auto dest!: bind_exn_Inr)
  have "map_of (mk_obj (gemini_fields pd info)) ''wateringFrequencyDays'' = Some w"
    by (simp add: map_of_mk_obj gemini_fields_distinct) (simp add: gemini_fields_def w)
  moreover have "map_of (mk_obj (gemini_fields pd info)) ''additionalInfo''
          = Some (JArr (map JStr info))"
    by (simp add: map_of_mk_obj gemini_fields_distinct) (simp add: gemini_fields_def)
  moreover from n have "to_string rt w = Inr n"
    by (simp add: tmpl_def)
  ultimately show ?thesis
    by (simp add: info)
qed

text \<open>
  Claim C10. Every result that \<open>processImage\<close> hands to \<open>onIdentified\<close>, from the Gemini
  version of \<open>identify-plant\<close> or from the PlantID version that builds the list, carries an
  \<open>additionalInfo\<close> of exactly five strings in a fixed order. The first is
  \<open>Watering: Every N days\<close>, with N the text of the result's \<open>wateringFrequencyDays\<close>; on the
  Gemini version the others start with \<open>Sunlight: \<close>, \<open>Soil: \<close>, \<open>Native to: \<close> and
  \<open>Care Level: \<close>, on the PlantID version they are four fixed sentences. This holds whatever
  the request, the key, the provider's answer and the verifier's verdict.
\<close>

theorem additional_info_five_strings:
  "(outcome_of (fst (processImage verified
       (invoke (fst (identify_plant_gemini rt req api_key fr))) p)) = Success d
    \<longrightarrow> (\<exists>w n a b c e. get_prop d ''wateringFrequencyDays'' = Some w
          \<and> to_string rt w = Inr n
          \<and> get_prop d ''additionalInfo''
              = Some (JArr [JStr (''Watering: Every '' @ n @ '' days''),
                            JStr (''Sunlight: '' @ a), JStr (''Soil: '' @ b),
                            JStr (''Native to: '' @ c), JStr (''Care Level: '' @ e)])))
   \<and> (outcome_of (fst (processImage verified'
       (invoke (fst (identify_plant_plantid rt req' api_key' fr'))) p')) = Success d'
    \<longrightarrow> (\<exists>w n. get_prop d' ''wateringFrequencyDays'' = Some w
          \<and> to_string rt w = Inr n
          \<and> get_prop d' ''additionalInfo''
              = Some (JArr [JStr (''Watering: Every '' @ n @ '' days''),
                            JStr ''Sunlight: Moderate to bright indirect light'',
                            JStr ''Soil: Well-draining potting mix'',
                            JStr ''Growth: Moderate growth rate'',
                            JStr ''Native: Varies by species''])))"
proof (intro conjI impI)
  assume "outcome_of (fst (processImage verified
            (invoke (fst (identify_plant_gemini rt req api_key fr))) p)) = Success d"
  from gemini_success_fields[OF this] obtain pd info where
    info: "gemini_additional_info rt (JObj pd) = Inr info"
    and d: "d = JObj (set_prop (mk_obj (gemini_fields (JObj pd) info)) ''imageUrl'' (JStr p))"
    by blast
  have g: "get_prop d k = map_of (mk_obj (gemini_fields (JObj pd) info)) k"
    if "k \<noteq> ''imageUrl''" for k
    using that by (simp add: d map_of_set_prop_other)
  show "\<exists>w n a b c e. get_prop d ''wateringFrequencyDays'' = Some w
          \<and> to_string rt w = Inr n
          \<and> get_prop d ''additionalInfo''
              = Some (JArr [JStr (''Watering: Every '' @ n @ '' days''),
                            JStr (''Sunlight: '' @ a), JStr (''Soil: '' @ b),
                            JStr (''Native to: '' @ c), JStr (''Care Level: '' @ e)])"
    using gemini_facts[OF info] by (simp add: g)
next
  assume "outcome_of (fst (processImage verified'
            (invoke (fst (identify_plant_plantid rt req' api_key' fr'))) p')) = Success d'"
  then obtain kvs where
    iv: "invoke (fst (identify_plant_plantid rt req' api_key' fr')) = InvokeData (Some (JObj kvs))"
    and d: "d' = JObj (set_prop kvs ''imageUrl'' (JStr p'))"
    using processImage_Success identify_step_Success by blast
  from plantid_handler_named[OF iv] obtain sug dsc info where
    info: "plantid_additional_info rt (plantid_watering sug) = Inr info"
    and kvs: "kvs = mk_obj (plantid_fields sug dsc info)"
    by blast
  have g: "get_prop d' k = map_of (mk_obj (plantid_fields sug dsc info)) k"
    if "k \<noteq> ''imageUrl''" for k
    using that by (simp add: d kvs map_of_set_prop_other)
  show "\<exists>w n. get_prop d' ''wateringFrequencyDays'' = Some w
          \<and> to_string rt w = Inr n
          \<and> get_prop d' ''additionalInfo''
              = Some (JArr [JStr (''Watering: Every '' @ n @ '' days''),
                            JStr ''Sunlight: Moderate to bright indirect light'',
                            JStr ''Soil: Well-draining potting mix'',
                            JStr ''Growth: Moderate growth rate'',
                            JStr ''Native: Varies by species''])"
    using plantid_facts[OF info, of dsc] by (simp add: g)
qed

theorem additional_info_five_strings_witness:
  "outcome_of (fst (processImage plant_verdict
      (invoke (fst (identify_plant_gemini small_runtime photo_request (Some ''key'')
                      (FetchResponse 200 (Json (gemini_reply sure_text))))))
      ''data:image/jpeg;base64,aGVsbG8=''))
     = Success (JObj
         [(''commonName'', JStr ''Fern''),
          (''scientificName'', JStr ''Species unknown''),
          (''about'', JStr ''A beautiful plant species.''),
          (''explanation'', JStr ''No additional details available.''),
          (''additionalInfo'', JArr
             [JStr ''Watering: Every 7 days'',
              JStr ''Sunlight: Moderate indirect light'',
              JStr ''Soil: Well-draining potting mix'',
              JStr ''Native to: Various regions'',
              JStr ''Care Level: Moderate'']),
          (''wateringFrequencyDays'', JNum 7), (''probability'', JNum (9 / 10)),
          (''imageUrl'', JStr ''data:image/jpeg;base64,aGVsbG8='')])
   \<and> outcome_of (fst (processImage plant_verdict
      (invoke (fst (identify_plant_plantid small_runtime photo_request (Some ''key'')
                      (FetchResponse 200 (Json rosa_response)))))
      ''data:image/jpeg;base64,aGVsbG8=''))
     = Success (JObj
         [(''commonName'', JStr ''Rose''), (''scientificName'', JStr ''Rosa''),
          (''about'', JStr ''A flowering shrub. It has thorns.''),
          (''explanation'', JStr ''It blooms in summer. It needs full sun..''),
          (''additionalInfo'', JArr
             [JStr ''Watering: Every 5 days'',
              JStr ''Sunlight: Moderate to bright indirect light'',
              JStr ''Soil: Well-draining potting mix'',
              JStr ''Growth: Moderate growth rate'',
              JStr ''Native: Varies by species'']),
          (''wateringFrequencyDays'', JNum 5), (''probability'', JNum (9 / 10)),
          (''imageUrl'', JStr ''data:image/jpeg;base64,aGVsbG8='')])
   \<and> to_string small_runtime (JNum 7) = Inr ''7''
   \<and> to_string small_runtime (JNum 5) = Inr ''5''"
proof -
  let ?fern = "JObj
         [(''commonName'', JStr ''Fern''),
          (''scientificName'', JStr ''Species unknown''),
          (''about'', JStr ''A beautiful plant species.''),
          (''explanation'', JStr ''No additional details available.''),
          (''additionalInfo'', JArr
             [JStr ''Watering: Every 7 days'',
              JStr ''Sunlight: Moderate indirect light'',
              JStr ''Soil: Well-draining potting mix'',
              JStr ''Native to: Various regions'',
              JStr ''Care Level: Moderate'']),
          (''wateringFrequencyDays'', JNum 7), (''probability'', JNum (9 / 10)),
          (''imageUrl'', JStr ''data:image/jpeg;base64,aGVsbG8='')]"
  let ?rose = "JObj
         [(''commonName'', JStr ''Rose''), (''scientificName'', JStr ''Rosa''),
          (''about'', JStr ''A flowering shrub. It has thorns.''),
          (''explanation'', JStr ''It blooms in summer. It needs full sun..''),
          (''additionalInfo'', JArr
             [JStr ''Watering: Every 5 days'',
              JStr ''Sunlight: Moderate to bright indirect light'',
              JStr ''Soil: Well-draining potting mix'',
              JStr ''Growth: Moderate growth rate'',
              JStr ''Native: Varies by species'']),
          (''wateringFrequencyDays'', JNum 5), (''probability'', JNum (9 / 10)),
          (''imageUrl'', JStr ''data:image/jpeg;base64,aGVsbG8='')]"
  have r1: "outcome_of (fst (processImage plant_verdict
      (invoke (fst (identify_plant_gemini small_runtime photo_request (Some ''key'')
                      (FetchResponse 200 (Json (gemini_reply sure_text))))))
      ''data:image/jpeg;base64,aGVsbG8='')) = Success ?fern"
    by (simp add: sure_run)
  have r2: "outcome_of (fst (processImage plant_verdict
      (invoke (fst (identify_plant_plantid small_runtime photo_request (Some ''key'')
                      (FetchResponse 200 (Json rosa_response)))))
      ''data:image/jpeg;base64,aGVsbG8='')) = Success ?rose"
    by (simp add: rosa_run)
  note w = additional_info_five_strings[of plant_verdict small_runtime photo_request "Some ''key''"
      "FetchResponse 200 (Json (gemini_reply sure_text))" "''data:image/jpeg;base64,aGVsbG8=''"
      ?fern plant_verdict photo_request "Some ''key''" "FetchResponse 200 (Json rosa_response)"
      "''data:image/jpeg;base64,aGVsbG8=''" ?rose]
  from mp[OF conjunct1[OF w] r1] obtain w1 n1 a b c e where
    "get_prop ?fern ''wateringFrequencyDays'' = Some w1"
    "to_string small_runtime w1 = Inr n1"
    "get_prop ?fern ''additionalInfo''
       = Some (JArr [JStr (''Watering: Every '' @ n1 @ '' days''),
                     JStr (''Sunlight: '' @ a), JStr (''Soil: '' @ b),
                     JStr (''Native to: '' @ c), JStr (''Care Level: '' @ e)])"
    by (elim exE conjE)
  then have s1: "to_string small_runtime (JNum 7) = Inr ''7''"
    by auto
  from mp[OF conjunct2[OF w] r2] obtain w2 n2 where
    "get_prop ?rose ''wateringFrequencyDays'' = Some w2"
    "to_string small_runtime w2 = Inr n2"
    "get_prop ?rose ''additionalInfo''
       = Some (JArr [JStr (''Watering: Every '' @ n2 @ '' days''),
                     JStr ''Sunlight: Moderate to bright indirect light'',
                     JStr ''Soil: Well-draining potting mix'',
                     JStr ''Growth: Moderate growth rate'',
                     JStr ''Native: Varies by species''])"
    by (elim exE conjE)
  then have s2: "to_string small_runtime (JNum 5) = Inr ''5''"
    by auto
  from r1 r2 s1 s2 show ?thesis by (intro conjI)
qed

section \<open>The defaults of the normalizer\<close>

lemma js_or_falsy: "\<not> truthy a \<Longrightarrow> js_or a b = b"
  by (simp add: js_or_def)

lemma js_or_truthy: "truthy a \<Longrightarrow> js_or a b = a"
  by (simp add: js_or_def)

lemma js_or_present2: "\<exists>y. js_or a (js_or b (Some d)) = Some y"
  using truthy_present[of a] js_or_present[of b d] by (auto simp: js_or_def)

lemma gemini_field:
  "map_of (mk_obj (gemini_fields pd info)) k
     = (case map_of (gemini_fields pd info) k of None \<Rightarrow> None | Some v \<Rightarrow> v)"
  by (simp add: map_of_mk_obj gemini_fields_distinct)

lemma plantid_field:
  "map_of (mk_obj (plantid_fields sug dsc info)) k
     = (case map_of (plantid_fields sug dsc info) k of None \<Rightarrow> None | Some v \<Rightarrow> v)"
  by (simp add: map_of_mk_obj plantid_fields_distinct)

lemma gemini_no_field_absent:
  "\<forall>k\<in>set result_keys. map_of (mk_obj (gemini_fields pd info)) k \<noteq> None"
  by (simp add: result_keys_def gemini_field)
     (simp add: gemini_fields_def js_or_present js_or_present2)

lemma plantid_no_field_absent:
  "\<forall>k\<in>set result_keys. map_of (mk_obj (plantid_fields sug dsc info)) k \<noteq> None"
  by (simp add: result_keys_def plantid_field)
     (simp add: plantid_fields_def Let_def js_or_present js_or_present2
        plantid_scientific_name_def plantid_watering_def)

lemma split_no_description:
  "split ''No description available'' ''. '' = [''No description available'']"
  by code_simp

lemma plantid_no_description:
  "map_of (mk_obj (plantid_fields sug ''No description available'' info)) ''about''
     = Some (JStr ''No description available.'')"
  "map_of (mk_obj (plantid_fields sug ''No description available'' info)) ''explanation''
     = Some (JStr ''No description available.'')"
  by (simp_all add: plantid_field)
     (simp_all add: plantid_fields_def Let_def split_no_description slice_def)

theorem literal_defaults_differ:
  "gemini_result small_runtime terse_answer
     = Inr \<lparr>resp_status = 200, resp_body = Some (JObj
          [(''commonName'', JStr ''Unknown Plant''),
           (''scientificName'', JStr ''Species unknown''),
           (''about'', JStr ''A beautiful plant species.''),
           (''explanation'', JStr ''Ferns are ancient.''),
           (''additionalInfo'', JArr
              [JStr ''Watering: Every 7 days'',
               JStr ''Sunlight: Moderate indirect light'',
               JStr ''Soil: Well-draining potting mix'',
               JStr ''Native to: Various regions'',
               JStr ''Care Level: Moderate'']),
           (''wateringFrequencyDays'', JNum 7),
           (''probability'', JNum (4 / 5))])\<rparr>
   \<and> plantid_normalize small_runtime bare_response
     = Inr \<lparr>resp_status = 200, resp_body = Some (JObj
          [(''commonName'', JStr ''Unknown''),
           (''scientificName'', JStr ''Unknown''),
           (''about'', JStr ''No description available.''),
           (''explanation'', JStr ''No description available.''),
           (''additionalInfo'', JArr
              [JStr ''Watering: Every 7 days'',
               JStr ''Sunlight: Moderate to bright indirect light'',
               JStr ''Soil: Well-draining potting mix'',
               JStr ''Growth: Moderate growth rate'',
               JStr ''Native: Varies by species'']),
           (''wateringFrequencyDays'', JNum 7),
           (''probability'', JNum 0)])\<rparr>"
  by code_simp

text \<open>
  Claim C5, as the code has it. Whenever the normalizer produces a result, no property of
  it is absent, on either version, and a missing or otherwise falsy property of the payload
  is filled as follows. Gemini version (an answer that passes the gate and whose template
  literals do not throw): \<open>commonName\<close> becomes \<open>Unknown Plant\<close>, \<open>scientificName\<close> becomes
  \<open>Species unknown\<close>, \<open>about\<close> becomes the literal \<open>A beautiful plant species.\<close> (it is not
  derived from \<open>explanation\<close>), \<open>explanation\<close> becomes \<open>about\<close> when that is given and
  \<open>No additional details available.\<close> otherwise, \<open>wateringFrequencyDays\<close> becomes 7, and a
  missing \<open>confidence\<close> gives the probability 0.8. PlantID version (any top suggestion for
  which the handler builds a result): a missing \<open>plant_name\<close> gives the \<open>scientificName\<close>
  \<open>Unknown\<close>; without a first entry of \<open>plant_details.common_names\<close> the \<open>commonName\<close> is the
  \<open>scientificName\<close>; without \<open>plant_details.description.value\<close> both \<open>about\<close> and \<open>explanation\<close>
  are \<open>No description available.\<close>; without \<open>plant_details.watering.max\<close> the
  \<open>wateringFrequencyDays\<close> is 7; a missing \<open>probability\<close> gives 0.
\<close>

theorem defaults_fill_every_field:
  "(gemini_result rt pd = Inr r \<and> opt_prop (resp_body r) ''lowConfidence'' = None
    \<longrightarrow> (\<exists>b. r = \<lparr>resp_status = 200, resp_body = Some (JObj b)\<rparr>
          \<and> (\<forall>k\<in>set result_keys. map_of b k \<noteq> None)
          \<and> (\<not> truthy (get_prop pd ''commonName'')
               \<longrightarrow> map_of b ''commonName'' = Some (JStr ''Unknown Plant''))
          \<and> (\<not> truthy (get_prop pd ''scientificName'')
               \<longrightarrow> map_of b ''scientificName'' = Some (JStr ''Species unknown''))
          \<and> (\<not> truthy (get_prop pd ''about'')
               \<longrightarrow> map_of b ''about'' = Some (JStr ''A beautiful plant species.''))
          \<and> (\<not> truthy (get_prop pd ''explanation'') \<and> truthy (get_prop pd ''about'')
               \<longrightarrow> map_of b ''explanation'' = get_prop pd ''about'')
          \<and> (\<not> truthy (get_prop pd ''explanation'') \<and> \<not> truthy (get_prop pd ''about'')
               \<longrightarrow> map_of b ''explanation'' = Some (JStr ''No additional details available.''))
          \<and> (\<not> truthy (get_prop pd ''wateringFrequencyDays'')
               \<longrightarrow> map_of b ''wateringFrequencyDays'' = Some (JNum 7))
          \<and> (\<not> truthy (get_prop pd ''confidence'')
               \<longrightarrow> map_of b ''probability'' = Some (JNum (4 / 5)))))
   \<and> (plantid_result rt sug = Inr r'
    \<longrightarrow> (\<exists>b. r' = \<lparr>resp_status = 200, resp_body = Some (JObj b)\<rparr>
          \<and> (\<forall>k\<in>set result_keys. map_of b k \<noteq> None)
          \<and> (\<not> truthy (opt_prop sug ''plant_name'')
               \<longrightarrow> map_of b ''scientificName'' = Some (JStr ''Unknown''))
          \<and> (\<not> truthy (opt_idx0 (plantid_common_names sug))
               \<longrightarrow> map_of b ''commonName'' = map_of b ''scientificName'')
          \<and> (\<not> truthy (opt_prop (opt_prop (plantid_details sug) ''description'') ''value'')
               \<longrightarrow> map_of b ''about'' = Some (JStr ''No description available.'')
                 \<and> map_of b ''explanation'' = Some (JStr ''No description available.''))
          \<and> (\<not> truthy (opt_prop (opt_prop (plantid_details sug) ''watering'') ''max'')
               \<longrightarrow> map_of b ''wateringFrequencyDays'' = Some (JNum 7))
          \<and> (\<not> truthy (opt_prop sug ''probability'')
               \<longrightarrow> map_of b ''probability'' = Some (JNum 0))))"
proof (intro conjI impI)
  assume a: "gemini_result rt pd = Inr r \<and> opt_prop (resp_body r) ''lowConfidence'' = None"
  have "r \<noteq> gemini_low_confidence pd"
  proof
    assume "r = gemini_low_confidence pd"
    with gemini_low_confidence_body(2)[of pd]
    have "opt_prop (resp_body r) ''lowConfidence'' = Some (JBool True)" by auto
    with a show False by simp
  qed
  with a gemini_result_cases[of rt pd r] obtain info where
    r: "r = \<lparr>resp_status = 200, resp_body = Some (JObj (mk_obj (gemini_fields pd info)))\<rparr>"
    by blast
  let ?b = "mk_obj (gemini_fields pd info)"
  have f: "map_of ?b ''commonName''
             = js_or (get_prop pd ''commonName'') (Some (JStr ''Unknown Plant''))"
    "map_of ?b ''scientificName''
             = js_or (get_prop pd ''scientificName'') (Some (JStr ''Species unknown''))"
    "map_of ?b ''about''
             = js_or (get_prop pd ''about'') (Some (JStr ''A beautiful plant species.''))"
    "map_of ?b ''explanation''
             = js_or (get_prop pd ''explanation'')
                 (js_or (get_prop pd ''about'') (Some (JStr ''No additional details available.'')))"
    "map_of ?b ''wateringFrequencyDays''
             = js_or (get_prop pd ''wateringFrequencyDays'') (Some (JNum 7))"
    by (simp_all add: gemini_field) (simp_all add: gemini_fields_def)
  show "\<exists>b. r = \<lparr>resp_status = 200, resp_body = Some (JObj b)\<rparr>
          \<and> (\<forall>k\<in>set result_keys. map_of b k \<noteq> None)
          \<and> (\<not> truthy (get_prop pd ''commonName'')
               \<longrightarrow> map_of b ''commonName'' = Some (JStr ''Unknown Plant''))
          \<and> (\<not> truthy (get_prop pd ''scientificName'')
               \<longrightarrow> map_of b ''scientificName'' = Some (JStr ''Species unknown''))
          \<and> (\<not> truthy (get_prop pd ''about'')
               \<longrightarrow> map_of b ''about'' = Some (JStr ''A beautiful plant species.''))
          \<and> (\<not> truthy (get_prop pd ''explanation'') \<and> truthy (get_prop pd ''about'')
               \<longrightarrow> map_of b ''explanation'' = get_prop pd ''about'')
          \<and> (\<not> truthy (get_prop pd ''explanation'') \<and> \<not> truthy (get_prop pd ''about'')
               \<longrightarrow> map_of b ''explanation'' = Some (JStr ''No additional details available.''))
          \<and> (\<not> truthy (get_prop pd ''wateringFrequencyDays'')
               \<longrightarrow> map_of b ''wateringFrequencyDays'' = Some (JNum 7))
          \<and> (\<not> truthy (get_prop pd ''confidence'')
               \<longrightarrow> map_of b ''probability'' = Some (JNum (4 / 5)))"
    using r gemini_no_field_absent[of pd info]
    by (intro exI[of _ ?b]) (simp add: f gemini_probability js_or_falsy js_or_truthy)
next
  assume "plantid_result rt sug = Inr r'"
  from plantid_result_named[OF this] obtain dsc info where
    d: "plantid_raw_description sug = Some (JStr dsc)"
    and r: "r' = \<lparr>resp_status = 200,
                   resp_body = Some (JObj (mk_obj (plantid_fields sug dsc info)))\<rparr>"
    by blast
  let ?b = "mk_obj (plantid_fields sug dsc info)"
  have f: "map_of ?b ''scientificName''
             = js_or (opt_prop sug ''plant_name'') (Some (JStr ''Unknown''))"
    "map_of ?b ''commonName''
             = js_or (opt_idx0 (plantid_common_names sug))
                 (js_or (opt_prop sug ''plant_name'') (Some (JStr ''Unknown'')))"
    "map_of ?b ''wateringFrequencyDays''
             = js_or (opt_prop (opt_prop (plantid_details sug) ''watering'') ''max'')
                 (Some (JNum 7))"
    "map_of ?b ''probability'' = js_or (opt_prop sug ''probability'') (Some (JNum 0))"
    by (simp_all add: plantid_field)
       (simp_all add: plantid_fields_def Let_def plantid_scientific_name_def plantid_watering_def)
  have nd: "map_of ?b ''about'' = Some (JStr ''No description available.'')
            \<and> map_of ?b ''explanation'' = Some (JStr ''No description available.'')"
    if "\<not> truthy (opt_prop (opt_prop (plantid_details sug) ''description'') ''value'')"
  proof -
    from that d have "dsc = ''No description available''"
      by (simp add: plantid_raw_description_def js_or_falsy)
    then show ?thesis
      using plantid_no_description[of sug info] by simp
  qed
  show "\<exists>b. r' = \<lparr>resp_status = 200, resp_body = Some (JObj b)\<rparr>
          \<and> (\<forall>k\<in>set result_keys. map_of b k \<noteq> None)
          \<and> (\<not> truthy (opt_prop sug ''plant_name'')
               \<longrightarrow> map_of b ''scientificName'' = Some (JStr ''Unknown''))
          \<and> (\<not> truthy (opt_idx0 (plantid_common_names sug))
               \<longrightarrow> map_of b ''commonName'' = map_of b ''scientificName'')
          \<and> (\<not> truthy (opt_prop (opt_prop (plantid_details sug) ''description'') ''value'')
               \<longrightarrow> map_of b ''about'' = Some (JStr ''No description available.'')
                 \<and> map_of b ''explanation'' = Some (JStr ''No description available.''))
          \<and> (\<not> truthy (opt_prop (opt_prop (plantid_details sug) ''watering'') ''max'')
               \<longrightarrow> map_of b ''wateringFrequencyDays'' = Some (JNum 7))
          \<and> (\<not> truthy (opt_prop sug ''probability'')
               \<longrightarrow> map_of b ''probability'' = Some (JNum 0))"
    using r plantid_no_field_absent[of sug dsc info] nd
    by (intro exI[of _ ?b]) (simp add: f js_or_falsy)
qed

lemma plain_answer_result:
  "gemini_result small_runtime (JObj [(''identified'', JBool True)])
     = Inr \<lparr>resp_status = 200, resp_body = Some (JObj
          [(''commonName'', JStr ''Unknown Plant''),
           (''scientificName'', JStr ''Species unknown''),
           (''about'', JStr ''A beautiful plant species.''),
           (''explanation'', JStr ''No additional details available.''),
           (''additionalInfo'', JArr
              [JStr ''Watering: Every 7 days'',
               JStr ''Sunlight: Moderate indirect light'',
               JStr ''Soil: Well-draining potting mix'',
               JStr ''Native to: Various regions'',
               JStr ''Care Level: Moderate'']),
           (''wateringFrequencyDays'', JNum 7),
           (''probability'', JNum (4 / 5))])\<rparr>"
  by code_simp

lemma half_details_result:
  "plantid_result small_runtime
     (Some (JObj [(''plant_details'', JObj [(''common_names'', JArr [JStr ''Rose''])])]))
     = Inr \<lparr>resp_status = 200, resp_body = Some (JObj
          [(''commonName'', JStr ''Rose''),
           (''scientificName'', JStr ''Unknown''),
           (''about'', JStr ''No description available.''),
           (''explanation'', JStr ''No description available.''),
           (''additionalInfo'', JArr
              [JStr ''Watering: Every 7 days'',
               JStr ''Sunlight: Moderate to bright indirect light'',
               JStr ''Soil: Well-draining potting mix'',
               JStr ''Growth: Moderate growth rate'',
               JStr ''Native: Varies by species'']),
           (''wateringFrequencyDays'', JNum 7),
           (''probability'', JNum 0)])\<rparr>"
  by code_simp

theorem defaults_fill_every_field_witness:
  "gemini_result small_runtime (JObj [(''identified'', JBool True)])
     = Inr \<lparr>resp_status = 200, resp_body = Some (JObj
          [(''commonName'', JStr ''Unknown Plant''),
           (''scientificName'', JStr ''Species unknown''),
           (''about'', JStr ''A beautiful plant species.''),
           (''explanation'', JStr ''No additional details available.''),
           (''additionalInfo'', JArr
              [JStr ''Watering: Every 7 days'',
               JStr ''Sunlight: Moderate indirect light'',
               JStr ''Soil: Well-draining potting mix'',
               JStr ''Native to: Various regions'',
               JStr ''Care Level: Moderate'']),
           (''wateringFrequencyDays'', JNum 7),
           (''probability'', JNum (4 / 5))])\<rparr>
   \<and> \<not> truthy (get_prop (JObj [(''identified'', JBool True)]) ''about'')
   \<and> (\<exists>b. gemini_result small_runtime (JObj [(''identified'', JBool True)])
              = Inr \<lparr>resp_status = 200, resp_body = Some (JObj b)\<rparr>
          \<and> map_of b ''commonName'' = Some (JStr ''Unknown Plant'')
          \<and> map_of b ''scientificName'' = Some (JStr ''Species unknown'')
          \<and> map_of b ''about'' = Some (JStr ''A beautiful plant species.'')
          \<and> map_of b ''explanation'' = Some (JStr ''No additional details available.'')
          \<and> map_of b ''wateringFrequencyDays'' = Some (JNum 7)
          \<and> map_of b ''probability'' = Some (JNum (4 / 5)))
   \<and> \<not> truthy (opt_prop (opt_prop (plantid_details
           (Some (JObj [(''plant_details'', JObj [(''common_names'', JArr [JStr ''Rose''])])])))
           ''watering'') ''max'')
   \<and> (\<exists>b. plantid_result small_runtime
             (Some (JObj [(''plant_details'', JObj [(''common_names'', JArr [JStr ''Rose''])])]))
              = Inr \<lparr>resp_status = 200, resp_body = Some (JObj b)\<rparr>
          \<and> map_of b ''scientificName'' = Some (JStr ''Unknown'')
          \<and> map_of b ''about'' = Some (JStr ''No description available.'')
          \<and> map_of b ''explanation'' = Some (JStr ''No description available.'')
          \<and> map_of b ''wateringFrequencyDays'' = Some (JNum 7)
          \<and> map_of b ''probability'' = Some (JNum 0))"
proof -
  let ?pd = "JObj [(''identified'', JBool True)]"
  let ?sug = "Some (JObj [(''plant_details'', JObj [(''common_names'', JArr [JStr ''Rose''])])])"
  let ?r = "\<lparr>resp_status = 200, resp_body = Some (JObj
          [(''commonName'', JStr ''Unknown Plant''),
           (''scientificName'', JStr ''Species unknown''),
           (''about'', JStr ''A beautiful plant species.''),
           (''explanation'', JStr ''No additional details available.''),
           (''additionalInfo'', JArr
              [JStr ''Watering: Every 7 days'',
               JStr ''Sunlight: Moderate indirect light'',
               JStr ''Soil: Well-draining potting mix'',
               JStr ''Native to: Various regions'',
               JStr ''Care Level: Moderate'']),
           (''wateringFrequencyDays'', JNum 7),
           (''probability'', JNum (4 / 5))])\<rparr>"
  let ?r' = "\<lparr>resp_status = 200, resp_body = Some (JObj
          [(''commonName'', JStr ''Rose''),
           (''scientificName'', JStr ''Unknown''),
           (''about'', JStr ''No description available.''),
           (''explanation'', JStr ''No description available.''),
           (''additionalInfo'', JArr
              [JStr ''Watering: Every 7 days'',
               JStr ''Sunlight: Moderate to bright indirect light'',
               JStr ''Soil: Well-draining potting mix'',
               JStr ''Growth: Moderate growth rate'',
               JStr ''Native: Varies by species'']),
           (''wateringFrequencyDays'', JNum 7),
           (''probability'', JNum 0)])\<rparr>"
  have g: "gemini_result small_runtime ?pd = Inr ?r"
    by (rule plain_answer_result)
  have l: "opt_prop (resp_body ?r) ''lowConfidence'' = None"
    by simp
  have m: "\<not> truthy (get_prop ?pd ''commonName'')" "\<not> truthy (get_prop ?pd ''scientificName'')"
    "\<not> truthy (get_prop ?pd ''about'')" "\<not> truthy (get_prop ?pd ''explanation'')"
    "\<not> truthy (get_prop ?pd ''wateringFrequencyDays'')" "\<not> truthy (get_prop ?pd ''confidence'')"
    by simp_all
  have h: "plantid_result small_runtime ?sug = Inr ?r'"
    by (rule half_details_result)
  have n: "\<not> truthy (opt_prop ?sug ''plant_name'')" "\<not> truthy (opt_prop ?sug ''probability'')"
    "\<not> truthy (opt_prop (opt_prop (plantid_details ?sug) ''description'') ''value'')"
    "\<not> truthy (opt_prop (opt_prop (plantid_details ?sug) ''watering'') ''max'')"
    by (simp_all add: plantid_details_def js_or_def)
  note w = defaults_fill_every_field[of small_runtime ?pd ?r ?sug ?r']
  from mp[OF conjunct1[OF w] conjI[OF g l]] m obtain b where b:
    "?r = \<lparr>resp_status = 200, resp_body = Some (JObj b)\<rparr>"
    "map_of b ''commonName'' = Some (JStr ''Unknown Plant'')"
    "map_of b ''scientificName'' = Some (JStr ''Species unknown'')"
    "map_of b ''about'' = Some (JStr ''A beautiful plant species.'')"
    "map_of b ''explanation'' = Some (JStr ''No additional details available.'')"
    "map_of b ''wateringFrequencyDays'' = Some (JNum 7)"
    "map_of b ''probability'' = Some (JNum (4 / 5))"
    by (elim exE conjE) simp
  from mp[OF conjunct2[OF w] h] n obtain c where c:
    "?r' = \<lparr>resp_status = 200, resp_body = Some (JObj c)\<rparr>"
    "map_of c ''scientificName'' = Some (JStr ''Unknown'')"
    "map_of c ''about'' = Some (JStr ''No description available.'')"
    "map_of c ''explanation'' = Some (JStr ''No description available.'')"
    "map_of c ''wateringFrequencyDays'' = Some (JNum 7)"
    "map_of c ''probability'' = Some (JNum 0)"
    by (elim exE conjE) simp
  have gem: "\<exists>b. gemini_result small_runtime ?pd
              = Inr \<lparr>resp_status = 200, resp_body = Some (JObj b)\<rparr>
          \<and> map_of b ''commonName'' = Some (JStr ''Unknown Plant'')
          \<and> map_of b ''scientificName'' = Some (JStr ''Species unknown'')
          \<and> map_of b ''about'' = Some (JStr ''A beautiful plant species.'')
          \<and> map_of b ''explanation'' = Some (JStr ''No additional details available.'')
          \<and> map_of b ''wateringFrequencyDays'' = Some (JNum 7)
          \<and> map_of b ''probability'' = Some (JNum (4 / 5))"
    using b(2-) g b(1) by (intro exI[of _ b]) (simp only: simp_thms)
  have pid: "\<exists>b. plantid_result small_runtime ?sug
              = Inr \<lparr>resp_status = 200, resp_body = Some (JObj b)\<rparr>
          \<and> map_of b ''scientificName'' = Some (JStr ''Unknown'')
          \<and> map_of b ''about'' = Some (JStr ''No description available.'')
          \<and> map_of b ''explanation'' = Some (JStr ''No description available.'')
          \<and> map_of b ''wateringFrequencyDays'' = Some (JNum 7)
          \<and> map_of b ''probability'' = Some (JNum 0)"
    using c(2-) h c(1) by (intro exI[of _ c]) (simp only: simp_thms)
  from g m(3) gem n(4) pid show ?thesis by (intro conjI)
qed

section \<open>The keyword heuristic of the verifier\<close>














section \<open>Days until the next watering\<close>

lemma setDate_getDate:
  "setDate h (Some t) (map_option (\<lambda>d. d + n) (getDate h (Some t)))
     = TimeClip (UTC h (LocalTime h t + n * msPerDay))"
proof -
  have "MakeDate (Day l + n) (TimeWithinDay l) = l + n * msPerDay" for l
    by (simp add: MakeDate_def Day_def TimeWithinDay_def algebra_simps)
  then show ?thesis
    by (simp add: setDate_def getDate_def)
qed

lemma fixed_offset_round_trip:
  assumes "\<forall>t. utc_offset h t = z \<and> local_offset h t = z"
  shows "UTC h (LocalTime h t + n * msPerDay) = t + n * msPerDay"
  using assms by (simp add: UTC_def LocalTime_def)

lemma dashboard_days:
  "dashboard_getDaysUntilWatering h today lastWatered frequency
     = Option.bind (Option.bind lastWatered TimeClip)
         (\<lambda>last. map_option
            (\<lambda>next. \<lceil>(of_int (next - today) :: rat) / of_int msPerDay\<rceil>)
            (TimeClip (UTC h (LocalTime h last + frequency * msPerDay))))"
proof (cases "Option.bind lastWatered TimeClip")
  case None
  then show ?thesis
    by (simp add: dashboard_getDaysUntilWatering_def setDate_def getDate_def)
next
  case (Some t)
  then show ?thesis
    by (simp add: dashboard_getDaysUntilWatering_def setDate_getDate msPerDay_def
        split: option.split)
qed

lemma whole_days: "\<lceil>(of_int (k * msPerDay) :: rat) / of_int msPerDay\<rceil> = k"
  by (simp add: msPerDay_def)

lemma ceiling_of_quotient: "\<lceil>(of_int a :: rat) / of_int b\<rceil> = - ((- a) div b)"
proof -
  have "\<lceil>(of_int a :: rat) / of_int b\<rceil> = - \<lfloor>(of_int (- a) :: rat) / of_int b\<rfloor>"
    by (simp add: ceiling_def)
  then show ?thesis
    by (simp only: floor_divide_of_int_eq)
qed

lemma fixed_offset_days:
  assumes "\<forall>t. utc_offset h t = z \<and> local_offset h t = z"
    and "\<bar>lw\<bar> \<le> 8640000000000000" and "\<bar>lw + n * msPerDay\<bar> \<le> 8640000000000000"
  shows "dashboard_getDaysUntilWatering h today (Some lw) n
           = Some \<lceil>(of_int (lw + n * msPerDay - today) :: rat) / of_int msPerDay\<rceil>"
  using assms(2,3)
  by (simp add: dashboard_days fixed_offset_round_trip[OF assms(1)] TimeClip_def)

theorem clock_change_shifts_the_count:
  "dashboard_getDaysUntilWatering eastern_host 1761825600000 (Some 1761825600000) 7 = Some 8
   \<and> dashboard_getDaysUntilWatering eastern_host 1762430400000
        (Some (1762430400000 - 7 * msPerDay)) 7 = Some 1
   \<and> dashboard_getDaysUntilWatering utc_host 1762041600000 (Some 8640000000000000) 7 = None"
proof -
  have a: "dashboard_getDaysUntilWatering eastern_host 1761825600000 (Some 1761825600000) 7
             = Some 8"
    by (simp only: dashboard_days ceiling_of_quotient)
       (simp add: TimeClip_def eastern_host_def UTC_def LocalTime_def msPerDay_def)
  have b: "dashboard_getDaysUntilWatering eastern_host 1762430400000
             (Some (1762430400000 - 7 * msPerDay)) 7 = Some 1"
    by (simp only: dashboard_days ceiling_of_quotient)
       (simp add: TimeClip_def eastern_host_def UTC_def LocalTime_def msPerDay_def)
  have c: "dashboard_getDaysUntilWatering utc_host 1762041600000 (Some 8640000000000000) 7
             = None"
    by (simp only: dashboard_days)
       (simp add: TimeClip_def utc_host_def UTC_def LocalTime_def msPerDay_def)
  from a b c show ?thesis by (intro conjI)
qed

text \<open>
  Claim C6, as the code has it. \<open>getDaysUntilWatering\<close> returns the ceiling of the time from
  now to the next watering date, in days, where the next watering date is the last watering
  moved \<open>frequency\<close> days on in the local calendar, at the same local time of day (\<open>setDate\<close>
  on the date components, whatever the calendar and the time zone); it returns NaN when the
  last watering or the next watering date is not a time value a \<open>Date\<close> can hold. The
  dashboard and the collection page compute the same. On a host whose offset from UTC does
  not change, and with \<open>now\<close> at least 10 days from either end of the range of \<open>Date\<close>: last
  watered 7 days ago at a frequency of 7 gives 0, 10 days ago gives -3, and just now gives 7.
\<close>

theorem days_until_watering:
  "dashboard_getDaysUntilWatering h today lastWatered frequency
     = Option.bind (Option.bind lastWatered TimeClip)
         (\<lambda>last. map_option
            (\<lambda>next. \<lceil>(of_int (next - today) :: rat) / of_int msPerDay\<rceil>)
            (TimeClip (UTC h (LocalTime h last + frequency * msPerDay))))
   \<and> myplants_getDaysUntilWatering h today lastWatered frequency
     = dashboard_getDaysUntilWatering h today lastWatered frequency
   \<and> ((\<forall>t. utc_offset h t = z \<and> local_offset h t = z)
        \<and> \<bar>now\<bar> \<le> 8640000000000000 - 10 * msPerDay \<longrightarrow>
        dashboard_getDaysUntilWatering h now (Some (now - 7 * msPerDay)) 7 = Some 0
        \<and> dashboard_getDaysUntilWatering h now (Some (now - 10 * msPerDay)) 7 = Some (- 3)
        \<and> dashboard_getDaysUntilWatering h now (Some now) 7 = Some 7)"
proof (intro conjI impI)
  show "dashboard_getDaysUntilWatering h today lastWatered frequency
     = Option.bind (Option.bind lastWatered TimeClip)
         (\<lambda>last. map_option
            (\<lambda>next. \<lceil>(of_int (next - today) :: rat) / of_int msPerDay\<rceil>)
            (TimeClip (UTC h (LocalTime h last + frequency * msPerDay))))"
    by (rule dashboard_days)
  show "myplants_getDaysUntilWatering h today lastWatered frequency
     = dashboard_getDaysUntilWatering h today lastWatered frequency"
    by (simp add: myplants_getDaysUntilWatering_def dashboard_getDaysUntilWatering_def)
next
  assume a: "(\<forall>t. utc_offset h t = z \<and> local_offset h t = z)
        \<and> \<bar>now\<bar> \<le> 8640000000000000 - 10 * msPerDay"
  then have fixed: "\<forall>t. utc_offset h t = z \<and> local_offset h t = z"
    and r: "\<bar>now\<bar> \<le> 8640000000000000 - 10 * msPerDay"
    by simp_all
  have r7: "\<bar>now - 7 * msPerDay\<bar> \<le> 8640000000000000"
    and r7': "\<bar>now - 7 * msPerDay + 7 * msPerDay\<bar> \<le> 8640000000000000"
    and r10: "\<bar>now - 10 * msPerDay\<bar> \<le> 8640000000000000"
    and r10': "\<bar>now - 10 * msPerDay + 7 * msPerDay\<bar> \<le> 8640000000000000"
    and r0: "\<bar>now\<bar> \<le> 8640000000000000"
    and r0': "\<bar>now + 7 * msPerDay\<bar> \<le> 8640000000000000"
    using r by (simp_all add: msPerDay_def)
  have "now - 7 * msPerDay + 7 * msPerDay - now = 0 * msPerDay" by simp
  then show "dashboard_getDaysUntilWatering h now (Some (now - 7 * msPerDay)) 7 = Some 0"
    by (simp only: fixed_offset_days[OF fixed r7 r7'] whole_days)
  have "now - 10 * msPerDay + 7 * msPerDay - now = (- 3) * msPerDay" by simp
  then show "dashboard_getDaysUntilWatering h now (Some (now - 10 * msPerDay)) 7 = Some (- 3)"
    by (simp only: fixed_offset_days[OF fixed r10 r10'] whole_days)
  have "now + 7 * msPerDay - now = 7 * msPerDay" by simp
  then show "dashboard_getDaysUntilWatering h now (Some now) 7 = Some 7"
    by (simp only: fixed_offset_days[OF fixed r0 r0'] whole_days)
qed

theorem days_until_watering_witness:
  "(\<forall>t. utc_offset utc_host t = 0 \<and> local_offset utc_host t = 0)
   \<and> \<bar>1762041600000 :: int\<bar> \<le> 8640000000000000 - 10 * msPerDay
   \<and> dashboard_getDaysUntilWatering utc_host 1762041600000
        (Some (1762041600000 - 7 * msPerDay)) 7 = Some 0
   \<and> dashboard_getDaysUntilWatering utc_host 1762041600000
        (Some (1762041600000 - 10 * msPerDay)) 7 = Some (- 3)
   \<and> dashboard_getDaysUntilWatering utc_host 1762041600000 (Some 1762041600000) 7 = Some 7
   \<and> dashboard_getDaysUntilWatering utc_host 1762071000000 (Some 1761465600000) 7 = Some 0
   \<and> myplants_getDaysUntilWatering utc_host 1762041600000 (Some 1761465600000) 7 = Some 1
   \<and> myplants_getDaysUntilWatering utc_host 1762041600000 None 7 = None"
proof -
  have fixed: "\<forall>t. utc_offset utc_host t = 0 \<and> local_offset utc_host t = 0"
    by (simp add: utc_host_def)
  have r: "\<bar>1762041600000 :: int\<bar> \<le> 8640000000000000 - 10 * msPerDay"
    by (simp add: msPerDay_def)
  note w = days_until_watering[of utc_host _ _ _ 0 1762041600000]
  have a: "dashboard_getDaysUntilWatering utc_host 1762041600000
             (Some (1762041600000 - 7 * msPerDay)) 7 = Some 0
        \<and> dashboard_getDaysUntilWatering utc_host 1762041600000
             (Some (1762041600000 - 10 * msPerDay)) 7 = Some (- 3)
        \<and> dashboard_getDaysUntilWatering utc_host 1762041600000 (Some 1762041600000) 7
             = Some 7"
    by (rule mp[OF conjunct2[OF conjunct2[OF w[of 0 None 0]]] conjI[OF fixed r]])
  have f: "dashboard_getDaysUntilWatering utc_host x y n
             = Option.bind (Option.bind y TimeClip)
                 (\<lambda>last. map_option
                    (\<lambda>next. \<lceil>(of_int (next - x) :: rat) / of_int msPerDay\<rceil>)
                    (TimeClip (UTC utc_host (LocalTime utc_host last + n * msPerDay))))"
    and g: "myplants_getDaysUntilWatering utc_host x y n
             = dashboard_getDaysUntilWatering utc_host x y n" for x y n
    by (rule conjunct1[OF w[of x y n]], rule conjunct1[OF conjunct2[OF w[of x y n]]])
  have b: "dashboard_getDaysUntilWatering utc_host 1762071000000 (Some 1761465600000) 7
             = Some 0"
    by (simp only: f ceiling_of_quotient)
       (simp add: TimeClip_def utc_host_def UTC_def LocalTime_def msPerDay_def)
  have c: "myplants_getDaysUntilWatering utc_host 1762041600000 (Some 1761465600000) 7
             = Some 1"
    by (simp only: g f ceiling_of_quotient)
       (simp add: TimeClip_def utc_host_def UTC_def LocalTime_def msPerDay_def)
  have d: "myplants_getDaysUntilWatering utc_host 1762041600000 None 7 = None"
    by (simp only: g f) simp
  from fixed r a b c d show ?thesis by (intro conjI) simp_all
qed

end
